theory Spec2Isabelle
  imports Main "HOL-Library.Word"
begin

section \<open>JavaScript strings\<close>

text \<open>
  A JavaScript string is a sequence of UTF-16 code units. \<open>trim\<close> and the regular
  expression class \<open>\s\<close> work on code units, so the model keeps them: a string is a
  list of 16-bit words, and \<open>js\<close> turns an ASCII literal into one.
\<close>

type_synonym jsstring = "16 word list"

definition js :: "string \<Rightarrow> jsstring" where
  "js s = map of_char s"

text \<open>
  ECMAScript WhiteSpace and LineTerminator code points: what \<open>String.prototype.trim\<close>
  strips and what \<open>\s\<close> matches.
\<close>

definition isWhiteSpace :: "16 word \<Rightarrow> bool" where
  "isWhiteSpace c =
     (c = 0x0009 \<or> c = 0x000A \<or> c = 0x000B \<or> c = 0x000C \<or> c = 0x000D \<or> c = 0x0020 \<or>
      c = 0x00A0 \<or> c = 0x1680 \<or> (0x2000 \<le> c \<and> c \<le> 0x200A) \<or> c = 0x2028 \<or>
      c = 0x2029 \<or> c = 0x202F \<or> c = 0x205F \<or> c = 0x3000 \<or> c = 0xFEFF)"

definition trim :: "jsstring \<Rightarrow> jsstring" where
  "trim s = rev (dropWhile isWhiteSpace (rev (dropWhile isWhiteSpace s)))"

text \<open>\<open>Array.prototype.join\<close> on a list of strings.\<close>

fun join :: "jsstring \<Rightarrow> jsstring list \<Rightarrow> jsstring" where
  "join sep [] = []"
| "join sep [x] = x"
| "join sep (x # y # ys) = x @ sep @ join sep (y # ys)"

text \<open>
  The test of \<open>/^[^\s@]+@[^\s@]+\.[^\s@]+$/\<close>. \<open>emailChar\<close> is the class \<open>[^\s@]\<close>.
  The first group can only be the longest prefix of class characters, since the character
  after it must be \<open>@\<close>, which is outside the class. The rest must consist of class
  characters and hold a dot that is neither its first nor its last character.
\<close>

definition emailChar :: "16 word \<Rightarrow> bool" where
  "emailChar c = (\<not> isWhiteSpace c \<and> c \<noteq> 0x40)"

definition emailRegex_test :: "jsstring \<Rightarrow> bool" where
  "emailRegex_test s =
     (takeWhile emailChar s \<noteq> [] \<and>
      (case dropWhile emailChar s of
         [] \<Rightarrow> False
       | c # rest \<Rightarrow> c = 0x40 \<and> list_all emailChar rest \<and> 0x2E \<in> set (butlast (tl rest))))"

section \<open>The EmailNotification entity\<close>

datatype NotificationType =
    ReservationCreated
  | ReservationCollected
  | ReservationReturned
  | ReservationCancelled
  | ReservationExpired
  | ReservationOverdue

datatype NotificationStatus = Pending | Sent | Failed

text \<open>A \<open>Date\<close> is the number of milliseconds since the epoch.\<close>

type_synonym Date = int

text \<open>
  \<open>retryCount\<close> is a JavaScript number, an IEEE 754 double, which the data model uses
  for a non-negative integer; the field holds the integer value of that double. The code
  only ever sets it to 0 and evaluates \<open>retryCount + 1\<close>, whose result is the double
  nearest to the exact sum, ties going to the even significand. \<open>addOne\<close> is that
  result for a double with a non-negative integer value \<open>n\<close>:
  \<^item> below \<open>2 ^ 53\<close> every integer is a double and the sum is exact;
  \<^item> from \<open>2 ^ 53\<close> up to \<open>2 ^ 54\<close> the doubles are the even integers, \<open>n + 1\<close> lies
    halfway between \<open>n\<close> and \<open>n + 2\<close>, and the one whose significand is even is chosen:
    \<open>n\<close> when \<open>n\<close> is a multiple of 4, \<open>n + 2\<close> otherwise;
  \<^item> from \<open>2 ^ 54\<close> on the doubles are at least 4 apart and the result is \<open>n\<close>.
  So \<open>2 ^ 53 + 1\<close> is \<open>2 ^ 53\<close>: the count stops growing there.
\<close>

definition addOne :: "nat \<Rightarrow> nat" where
  "addOne n =
     (if n < 2 ^ 53 then n + 1
      else if n < 2 ^ 54 \<and> n mod 4 = 2 then n + 2
      else n)"

record EmailNotification =
  id' :: jsstring
  userId :: jsstring
  userEmail :: jsstring
  type :: NotificationType
  subject :: jsstring
  htmlBody :: jsstring
  textBody :: "jsstring option"
  status :: NotificationStatus
  reservationId :: jsstring
  createdAt :: Date
  sentAt :: "Date option"
  failureReason :: "jsstring option"
  retryCount :: nat
  updatedAt :: Date

record CreateEmailNotificationParams =
  p_id :: jsstring
  p_userId :: jsstring
  p_userEmail :: jsstring
  p_type :: NotificationType
  p_subject :: jsstring
  p_htmlBody :: jsstring
  p_textBody :: "jsstring option"
  p_reservationId :: jsstring

datatype NotificationError = NotificationError (field: jsstring) (message: jsstring)

text \<open>The string value of each member of the enum, and \<open>Object.values(NotificationType)\<close>.\<close>

fun NotificationType_value :: "NotificationType \<Rightarrow> jsstring" where
  "NotificationType_value ReservationCreated = js ''ReservationCreated''"
| "NotificationType_value ReservationCollected = js ''ReservationCollected''"
| "NotificationType_value ReservationReturned = js ''ReservationReturned''"
| "NotificationType_value ReservationCancelled = js ''ReservationCancelled''"
| "NotificationType_value ReservationExpired = js ''ReservationExpired''"
| "NotificationType_value ReservationOverdue = js ''ReservationOverdue''"

definition NotificationType_values :: "NotificationType list" where
  "NotificationType_values =
     [ReservationCreated, ReservationCollected, ReservationReturned,
      ReservationCancelled, ReservationExpired, ReservationOverdue]"

text \<open>
  \<open>validateCreateEmailNotification\<close> throws at the first check that fails; the thrown
  \<open>NotificationError\<close> is the \<open>Inl\<close> result. Every field has the type \<open>string\<close>, for
  which \<open>!x\<close> holds exactly of the empty string and \<open>typeof x !== 'string'\<close> never holds.
\<close>

definition validateCreateEmailNotification ::
  "CreateEmailNotificationParams \<Rightarrow> NotificationError + unit" where
  "validateCreateEmailNotification params =
     (if p_id params = [] \<or> trim (p_id params) = [] then
        Inl (NotificationError (js ''id'') (js ''Notification id must be a non-empty string.''))
      else if p_userId params = [] \<or> trim (p_userId params) = [] then
        Inl (NotificationError (js ''userId'')
              (js ''Notification userId must be a non-empty string.''))
      else if p_userEmail params = [] \<or> trim (p_userEmail params) = [] then
        Inl (NotificationError (js ''userEmail'')
              (js ''Notification userEmail must be a non-empty string.''))
      else if \<not> emailRegex_test (trim (p_userEmail params)) then
        Inl (NotificationError (js ''userEmail'')
              (js ''Notification userEmail must be a valid email address.''))
      else if p_subject params = [] \<or> trim (p_subject params) = [] then
        Inl (NotificationError (js ''subject'')
              (js ''Notification subject must be a non-empty string.''))
      else if p_htmlBody params = [] \<or> trim (p_htmlBody params) = [] then
        Inl (NotificationError (js ''htmlBody'')
              (js ''Notification htmlBody must be a non-empty string.''))
      else if p_reservationId params = [] \<or> trim (p_reservationId params) = [] then
        Inl (NotificationError (js ''reservationId'')
              (js ''Notification reservationId must be a non-empty string.''))
      else if p_type params \<notin> set NotificationType_values then
        Inl (NotificationError (js ''type'')
              (js ''Notification type must be one of: '' @
               join (js '', '') (map NotificationType_value NotificationType_values)))
      else Inr ())"

text \<open>
  \<open>createEmailNotification\<close>. The reading of the clock (\<open>new Date()\<close>) is the argument
  \<open>now\<close>. \<open>String.prototype.toLowerCase\<close> is the Unicode lower-casing of the runtime;
  it is the argument \<open>toLowerCase\<close>, so that what is proved holds of any lower-casing.
\<close>

definition createEmailNotification ::
  "(jsstring \<Rightarrow> jsstring) \<Rightarrow> Date \<Rightarrow> CreateEmailNotificationParams \<Rightarrow>
   NotificationError + EmailNotification" where
  "createEmailNotification toLowerCase now params =
     (case validateCreateEmailNotification params of
        Inl e \<Rightarrow> Inl e
      | Inr _ \<Rightarrow>
          Inr \<lparr> id' = trim (p_id params),
                userId = trim (p_userId params),
                userEmail = toLowerCase (trim (p_userEmail params)),
                type = p_type params,
                subject = trim (p_subject params),
                htmlBody = p_htmlBody params,
                textBody = map_option trim (p_textBody params),
                status = Pending,
                reservationId = trim (p_reservationId params),
                createdAt = now,
                sentAt = None,
                failureReason = None,
                retryCount = 0,
                updatedAt = now \<rparr>)"

definition markNotificationSent :: "Date \<Rightarrow> EmailNotification \<Rightarrow> EmailNotification" where
  "markNotificationSent now notification =
     notification \<lparr> status := Sent, sentAt := Some now, updatedAt := now \<rparr>"

definition markNotificationFailed ::
  "Date \<Rightarrow> EmailNotification \<Rightarrow> jsstring \<Rightarrow> EmailNotification" where
  "markNotificationFailed now notification reason =
     notification \<lparr> status := Failed,
                    failureReason := Some reason,
                    retryCount := addOne (retryCount notification),
                    updatedAt := now \<rparr>"

section \<open>Email templates\<close>

record ReservationEmailData =
  d_userEmail :: jsstring
  d_reservationId :: jsstring
  d_deviceName :: "jsstring option"
  d_reservedAt :: "jsstring option"
  d_expiresAt :: "jsstring option"
  d_collectedAt :: "jsstring option"
  d_returnDueAt :: "jsstring option"
  d_returnedAt :: "jsstring option"

record EmailTemplate =
  t_subject :: jsstring
  t_htmlBody :: jsstring
  t_textBody :: jsstring

definition APP_NAME :: jsstring where
  "APP_NAME = js ''Device Loan System''"

definition SUPPORT_EMAIL :: jsstring where
  "SUPPORT_EMAIL = js ''support@deviceloan.edu''"

text \<open>
  An optional field is \<open>None\<close> when the property is absent (\<open>undefined\<close>). As the
  condition of \<open>? :\<close> it counts as true when it is a non-empty string; inside a
  template literal \<open>undefined\<close> is written as the text \<open>undefined\<close>.
\<close>

definition truthy :: "jsstring option \<Rightarrow> bool" where
  "truthy v = (case v of None \<Rightarrow> False | Some s \<Rightarrow> s \<noteq> [])"

definition ToString :: "jsstring option \<Rightarrow> jsstring" where
  "ToString v = (case v of None \<Rightarrow> js ''undefined'' | Some s \<Rightarrow> s)"

text \<open>\<open>v || d\<close> for an optional string \<open>v\<close>: \<open>v\<close> when it is truthy, and \<open>d\<close> otherwise.\<close>

definition logicalOr :: "jsstring option \<Rightarrow> jsstring \<Rightarrow> jsstring" where
  "logicalOr v d = (case v of None \<Rightarrow> d | Some s \<Rightarrow> if s = [] then d else s)"

text \<open>The decimal digits of a natural number, as a template literal writes a year.\<close>

fun Number_toString :: "nat \<Rightarrow> jsstring" where
  "Number_toString n =
     (if n < 10 then [0x30 + of_nat n]
      else Number_toString (n div 10) @ [0x30 + of_nat (n mod 10)])"

text \<open>
  The six templates, one line of the model for each line of the template literal. The
  argument \<open>fullYear\<close> is the value of \<open>new Date().getFullYear()\<close> at the time of
  rendering. Characters outside ASCII are given by their UTF-16 code units.
\<close>

definition getReservationCreatedEmail :: "nat \<Rightarrow> ReservationEmailData \<Rightarrow> EmailTemplate" where
\<open>getReservationCreatedEmail fullYear data =
   \<lparr> t_subject = APP_NAME @ js '' - Your reservation is confirmed'',
     t_htmlBody =
          js ''\<newline>'' @
          js ''<!DOCTYPE html>\<newline>'' @
          js ''<html>\<newline>'' @
          js ''<head>\<newline>'' @
          js ''  <style>\<newline>'' @
          js ''    body { font-family: Arial, sans-serif; line-height: 1.6; color: #333; }\<newline>'' @
          js ''    .container { max-width: 600px; margin: 0 auto; padding: 20px; }\<newline>'' @
          js ''    .header { background-color: #4F46E5; color: white; padding: 20px; text-align: center; }\<newline>'' @
          js ''    .content { padding: 20px; background-color: #f9fafb; }\<newline>'' @
          js ''    .footer { padding: 20px; text-align: center; font-size: 12px; color: #666; }\<newline>'' @
          js ''    .highlight { background-color: #EEF2FF; padding: 15px; border-radius: 8px; margin: 15px 0; }\<newline>'' @
          js ''    .btn { display: inline-block; background-color: #4F46E5; color: white; padding: 12px 24px; text-decoration: none; border-radius: 6px; }\<newline>'' @
          js ''  </style>\<newline>'' @
          js ''</head>\<newline>'' @
          js ''<body>\<newline>'' @
          js ''  <div class="container">\<newline>'' @
          js ''    <div class="header">\<newline>'' @
          js ''      <h1>'' @ APP_NAME @ js ''</h1>\<newline>'' @
          js ''    </div>\<newline>'' @
          js ''    <div class="content">\<newline>'' @
          js ''      <h2>Reservation Confirmed! '' @ [0xD83C, 0xDF89] @ js ''</h2>\<newline>'' @
          js ''      <p>Your device reservation has been successfully created.</p>\<newline>'' @
          js ''      \<newline>'' @
          js ''      <div class="highlight">\<newline>'' @
          js ''        <p><strong>Reservation ID:</strong> '' @ d_reservationId data @ js ''</p>\<newline>'' @
          js ''        '' @ (if truthy (d_deviceName data) then js ''<p><strong>Device:</strong> '' @ ToString (d_deviceName data) @ js ''</p>'' else js '''') @ js ''\<newline>'' @
          js ''        '' @ (if truthy (d_reservedAt data) then js ''<p><strong>Reserved At:</strong> '' @ ToString (d_reservedAt data) @ js ''</p>'' else js '''') @ js ''\<newline>'' @
          js ''        '' @ (if truthy (d_expiresAt data) then js ''<p><strong>Collection Deadline:</strong> '' @ ToString (d_expiresAt data) @ js ''</p>'' else js '''') @ js ''\<newline>'' @
          js ''      </div>\<newline>'' @
          js ''      \<newline>'' @
          js ''      <p><strong>Important:</strong> Please collect your device within 24 hours, or your reservation will expire.</p>\<newline>'' @
          js ''      \<newline>'' @
          js ''      <p>Visit the IT desk to collect your device. Don't forget to bring your student ID!</p>\<newline>'' @
          js ''    </div>\<newline>'' @
          js ''    <div class="footer">\<newline>'' @
          js ''      <p>If you have any questions, please contact us at '' @ SUPPORT_EMAIL @ js ''</p>\<newline>'' @
          js ''      <p>&copy; '' @ Number_toString fullYear @ js '' '' @ APP_NAME @ js ''</p>\<newline>'' @
          js ''    </div>\<newline>'' @
          js ''  </div>\<newline>'' @
          js ''</body>\<newline>'' @
          js ''</html>'',
     t_textBody =
          js ''\<newline>'' @
          APP_NAME @ js '' - Reservation Confirmed!\<newline>'' @
          js ''\<newline>'' @
          js ''Your device reservation has been successfully created.\<newline>'' @
          js ''\<newline>'' @
          js ''Reservation ID: '' @ d_reservationId data @ js ''\<newline>'' @
          (if truthy (d_deviceName data) then js ''Device: '' @ ToString (d_deviceName data) else js '''') @ js ''\<newline>'' @
          (if truthy (d_reservedAt data) then js ''Reserved At: '' @ ToString (d_reservedAt data) else js '''') @ js ''\<newline>'' @
          (if truthy (d_expiresAt data) then js ''Collection Deadline: '' @ ToString (d_expiresAt data) else js '''') @ js ''\<newline>'' @
          js ''\<newline>'' @
          js ''Important: Please collect your device within 24 hours, or your reservation will expire.\<newline>'' @
          js ''\<newline>'' @
          js ''Visit the IT desk to collect your device. Don't forget to bring your student ID!\<newline>'' @
          js ''\<newline>'' @
          js ''If you have any questions, please contact us at '' @ SUPPORT_EMAIL @ js ''\<newline>'' \<rparr>\<close>

definition getReservationCollectedEmail :: "nat \<Rightarrow> ReservationEmailData \<Rightarrow> EmailTemplate" where
\<open>getReservationCollectedEmail fullYear data =
   \<lparr> t_subject = APP_NAME @ js '' - Device collected successfully'',
     t_htmlBody =
          js ''\<newline>'' @
          js ''<!DOCTYPE html>\<newline>'' @
          js ''<html>\<newline>'' @
          js ''<head>\<newline>'' @
          js ''  <style>\<newline>'' @
          js ''    body { font-family: Arial, sans-serif; line-height: 1.6; color: #333; }\<newline>'' @
          js ''    .container { max-width: 600px; margin: 0 auto; padding: 20px; }\<newline>'' @
          js ''    .header { background-color: #059669; color: white; padding: 20px; text-align: center; }\<newline>'' @
          js ''    .content { padding: 20px; background-color: #f9fafb; }\<newline>'' @
          js ''    .footer { padding: 20px; text-align: center; font-size: 12px; color: #666; }\<newline>'' @
          js ''    .highlight { background-color: #ECFDF5; padding: 15px; border-radius: 8px; margin: 15px 0; }\<newline>'' @
          js ''    .warning { background-color: #FEF3C7; padding: 15px; border-radius: 8px; margin: 15px 0; }\<newline>'' @
          js ''  </style>\<newline>'' @
          js ''</head>\<newline>'' @
          js ''<body>\<newline>'' @
          js ''  <div class="container">\<newline>'' @
          js ''    <div class="header">\<newline>'' @
          js ''      <h1>'' @ APP_NAME @ js ''</h1>\<newline>'' @
          js ''    </div>\<newline>'' @
          js ''    <div class="content">\<newline>'' @
          js ''      <h2>Device Collected '' @ [0x2705] @ js ''</h2>\<newline>'' @
          js ''      <p>You have successfully collected your reserved device.</p>\<newline>'' @
          js ''      \<newline>'' @
          js ''      <div class="highlight">\<newline>'' @
          js ''        <p><strong>Reservation ID:</strong> '' @ d_reservationId data @ js ''</p>\<newline>'' @
          js ''        '' @ (if truthy (d_deviceName data) then js ''<p><strong>Device:</strong> '' @ ToString (d_deviceName data) @ js ''</p>'' else js '''') @ js ''\<newline>'' @
          js ''        '' @ (if truthy (d_collectedAt data) then js ''<p><strong>Collected At:</strong> '' @ ToString (d_collectedAt data) @ js ''</p>'' else js '''') @ js ''\<newline>'' @
          js ''        '' @ (if truthy (d_returnDueAt data) then js ''<p><strong>Return Due:</strong> '' @ ToString (d_returnDueAt data) @ js ''</p>'' else js '''') @ js ''\<newline>'' @
          js ''      </div>\<newline>'' @
          js ''      \<newline>'' @
          js ''      <div class="warning">\<newline>'' @
          js ''        <p>'' @ [0x26A0, 0xFE0F] @ js '' <strong>Remember:</strong> Please return the device by the due date to avoid late fees.</p>\<newline>'' @
          js ''      </div>\<newline>'' @
          js ''      \<newline>'' @
          js ''      <p>Take good care of the device and return it in the same condition you received it.</p>\<newline>'' @
          js ''    </div>\<newline>'' @
          js ''    <div class="footer">\<newline>'' @
          js ''      <p>If you have any questions, please contact us at '' @ SUPPORT_EMAIL @ js ''</p>\<newline>'' @
          js ''      <p>&copy; '' @ Number_toString fullYear @ js '' '' @ APP_NAME @ js ''</p>\<newline>'' @
          js ''    </div>\<newline>'' @
          js ''  </div>\<newline>'' @
          js ''</body>\<newline>'' @
          js ''</html>'',
     t_textBody =
          js ''\<newline>'' @
          APP_NAME @ js '' - Device Collected\<newline>'' @
          js ''\<newline>'' @
          js ''You have successfully collected your reserved device.\<newline>'' @
          js ''\<newline>'' @
          js ''Reservation ID: '' @ d_reservationId data @ js ''\<newline>'' @
          (if truthy (d_deviceName data) then js ''Device: '' @ ToString (d_deviceName data) else js '''') @ js ''\<newline>'' @
          (if truthy (d_collectedAt data) then js ''Collected At: '' @ ToString (d_collectedAt data) else js '''') @ js ''\<newline>'' @
          (if truthy (d_returnDueAt data) then js ''Return Due: '' @ ToString (d_returnDueAt data) else js '''') @ js ''\<newline>'' @
          js ''\<newline>'' @
          js ''Remember: Please return the device by the due date to avoid late fees.\<newline>'' @
          js ''\<newline>'' @
          js ''Take good care of the device and return it in the same condition you received it.\<newline>'' @
          js ''\<newline>'' @
          js ''If you have any questions, please contact us at '' @ SUPPORT_EMAIL @ js ''\<newline>'' \<rparr>\<close>

definition getReservationReturnedEmail :: "nat \<Rightarrow> ReservationEmailData \<Rightarrow> EmailTemplate" where
\<open>getReservationReturnedEmail fullYear data =
   \<lparr> t_subject = APP_NAME @ js '' - Device returned - Thank you!'',
     t_htmlBody =
          js ''\<newline>'' @
          js ''<!DOCTYPE html>\<newline>'' @
          js ''<html>\<newline>'' @
          js ''<head>\<newline>'' @
          js ''  <style>\<newline>'' @
          js ''    body { font-family: Arial, sans-serif; line-height: 1.6; color: #333; }\<newline>'' @
          js ''    .container { max-width: 600px; margin: 0 auto; padding: 20px; }\<newline>'' @
          js ''    .header { background-color: #2563EB; color: white; padding: 20px; text-align: center; }\<newline>'' @
          js ''    .content { padding: 20px; background-color: #f9fafb; }\<newline>'' @
          js ''    .footer { padding: 20px; text-align: center; font-size: 12px; color: #666; }\<newline>'' @
          js ''    .highlight { background-color: #EFF6FF; padding: 15px; border-radius: 8px; margin: 15px 0; }\<newline>'' @
          js ''  </style>\<newline>'' @
          js ''</head>\<newline>'' @
          js ''<body>\<newline>'' @
          js ''  <div class="container">\<newline>'' @
          js ''    <div class="header">\<newline>'' @
          js ''      <h1>'' @ APP_NAME @ js ''</h1>\<newline>'' @
          js ''    </div>\<newline>'' @
          js ''    <div class="content">\<newline>'' @
          js ''      <h2>Device Returned '' @ [0xD83D, 0xDE4F] @ js ''</h2>\<newline>'' @
          js ''      <p>Thank you for returning your device!</p>\<newline>'' @
          js ''      \<newline>'' @
          js ''      <div class="highlight">\<newline>'' @
          js ''        <p><strong>Reservation ID:</strong> '' @ d_reservationId data @ js ''</p>\<newline>'' @
          js ''        '' @ (if truthy (d_deviceName data) then js ''<p><strong>Device:</strong> '' @ ToString (d_deviceName data) @ js ''</p>'' else js '''') @ js ''\<newline>'' @
          js ''        '' @ (if truthy (d_returnedAt data) then js ''<p><strong>Returned At:</strong> '' @ ToString (d_returnedAt data) @ js ''</p>'' else js '''') @ js ''\<newline>'' @
          js ''      </div>\<newline>'' @
          js ''      \<newline>'' @
          js ''      <p>Your loan has been completed. Feel free to reserve another device whenever you need one!</p>\<newline>'' @
          js ''    </div>\<newline>'' @
          js ''    <div class="footer">\<newline>'' @
          js ''      <p>If you have any questions, please contact us at '' @ SUPPORT_EMAIL @ js ''</p>\<newline>'' @
          js ''      <p>&copy; '' @ Number_toString fullYear @ js '' '' @ APP_NAME @ js ''</p>\<newline>'' @
          js ''    </div>\<newline>'' @
          js ''  </div>\<newline>'' @
          js ''</body>\<newline>'' @
          js ''</html>'',
     t_textBody =
          js ''\<newline>'' @
          APP_NAME @ js '' - Device Returned\<newline>'' @
          js ''\<newline>'' @
          js ''Thank you for returning your device!\<newline>'' @
          js ''\<newline>'' @
          js ''Reservation ID: '' @ d_reservationId data @ js ''\<newline>'' @
          (if truthy (d_deviceName data) then js ''Device: '' @ ToString (d_deviceName data) else js '''') @ js ''\<newline>'' @
          (if truthy (d_returnedAt data) then js ''Returned At: '' @ ToString (d_returnedAt data) else js '''') @ js ''\<newline>'' @
          js ''\<newline>'' @
          js ''Your loan has been completed. Feel free to reserve another device whenever you need one!\<newline>'' @
          js ''\<newline>'' @
          js ''If you have any questions, please contact us at '' @ SUPPORT_EMAIL @ js ''\<newline>'' \<rparr>\<close>

definition getReservationCancelledEmail :: "nat \<Rightarrow> ReservationEmailData \<Rightarrow> EmailTemplate" where
\<open>getReservationCancelledEmail fullYear data =
   \<lparr> t_subject = APP_NAME @ js '' - Reservation cancelled'',
     t_htmlBody =
          js ''\<newline>'' @
          js ''<!DOCTYPE html>\<newline>'' @
          js ''<html>\<newline>'' @
          js ''<head>\<newline>'' @
          js ''  <style>\<newline>'' @
          js ''    body { font-family: Arial, sans-serif; line-height: 1.6; color: #333; }\<newline>'' @
          js ''    .container { max-width: 600px; margin: 0 auto; padding: 20px; }\<newline>'' @
          js ''    .header { background-color: #6B7280; color: white; padding: 20px; text-align: center; }\<newline>'' @
          js ''    .content { padding: 20px; background-color: #f9fafb; }\<newline>'' @
          js ''    .footer { padding: 20px; text-align: center; font-size: 12px; color: #666; }\<newline>'' @
          js ''    .highlight { background-color: #F3F4F6; padding: 15px; border-radius: 8px; margin: 15px 0; }\<newline>'' @
          js ''  </style>\<newline>'' @
          js ''</head>\<newline>'' @
          js ''<body>\<newline>'' @
          js ''  <div class="container">\<newline>'' @
          js ''    <div class="header">\<newline>'' @
          js ''      <h1>'' @ APP_NAME @ js ''</h1>\<newline>'' @
          js ''    </div>\<newline>'' @
          js ''    <div class="content">\<newline>'' @
          js ''      <h2>Reservation Cancelled</h2>\<newline>'' @
          js ''      <p>Your device reservation has been cancelled.</p>\<newline>'' @
          js ''      \<newline>'' @
          js ''      <div class="highlight">\<newline>'' @
          js ''        <p><strong>Reservation ID:</strong> '' @ d_reservationId data @ js ''</p>\<newline>'' @
          js ''        '' @ (if truthy (d_deviceName data) then js ''<p><strong>Device:</strong> '' @ ToString (d_deviceName data) @ js ''</p>'' else js '''') @ js ''\<newline>'' @
          js ''      </div>\<newline>'' @
          js ''      \<newline>'' @
          js ''      <p>If this was a mistake or you need to reserve another device, you can create a new reservation anytime.</p>\<newline>'' @
          js ''    </div>\<newline>'' @
          js ''    <div class="footer">\<newline>'' @
          js ''      <p>If you have any questions, please contact us at '' @ SUPPORT_EMAIL @ js ''</p>\<newline>'' @
          js ''      <p>&copy; '' @ Number_toString fullYear @ js '' '' @ APP_NAME @ js ''</p>\<newline>'' @
          js ''    </div>\<newline>'' @
          js ''  </div>\<newline>'' @
          js ''</body>\<newline>'' @
          js ''</html>'',
     t_textBody =
          js ''\<newline>'' @
          APP_NAME @ js '' - Reservation Cancelled\<newline>'' @
          js ''\<newline>'' @
          js ''Your device reservation has been cancelled.\<newline>'' @
          js ''\<newline>'' @
          js ''Reservation ID: '' @ d_reservationId data @ js ''\<newline>'' @
          (if truthy (d_deviceName data) then js ''Device: '' @ ToString (d_deviceName data) else js '''') @ js ''\<newline>'' @
          js ''\<newline>'' @
          js ''If this was a mistake or you need to reserve another device, you can create a new reservation anytime.\<newline>'' @
          js ''\<newline>'' @
          js ''If you have any questions, please contact us at '' @ SUPPORT_EMAIL @ js ''\<newline>'' \<rparr>\<close>

definition getReservationExpiredEmail :: "nat \<Rightarrow> ReservationEmailData \<Rightarrow> EmailTemplate" where
\<open>getReservationExpiredEmail fullYear data =
   \<lparr> t_subject = APP_NAME @ js '' - Reservation expired'',
     t_htmlBody =
          js ''\<newline>'' @
          js ''<!DOCTYPE html>\<newline>'' @
          js ''<html>\<newline>'' @
          js ''<head>\<newline>'' @
          js ''  <style>\<newline>'' @
          js ''    body { font-family: Arial, sans-serif; line-height: 1.6; color: #333; }\<newline>'' @
          js ''    .container { max-width: 600px; margin: 0 auto; padding: 20px; }\<newline>'' @
          js ''    .header { background-color: #DC2626; color: white; padding: 20px; text-align: center; }\<newline>'' @
          js ''    .content { padding: 20px; background-color: #f9fafb; }\<newline>'' @
          js ''    .footer { padding: 20px; text-align: center; font-size: 12px; color: #666; }\<newline>'' @
          js ''    .highlight { background-color: #FEF2F2; padding: 15px; border-radius: 8px; margin: 15px 0; }\<newline>'' @
          js ''  </style>\<newline>'' @
          js ''</head>\<newline>'' @
          js ''<body>\<newline>'' @
          js ''  <div class="container">\<newline>'' @
          js ''    <div class="header">\<newline>'' @
          js ''      <h1>'' @ APP_NAME @ js ''</h1>\<newline>'' @
          js ''    </div>\<newline>'' @
          js ''    <div class="content">\<newline>'' @
          js ''      <h2>Reservation Expired '' @ [0x23F0] @ js ''</h2>\<newline>'' @
          js ''      <p>Unfortunately, your device reservation has expired because it was not collected within the 24-hour window.</p>\<newline>'' @
          js ''      \<newline>'' @
          js ''      <div class="highlight">\<newline>'' @
          js ''        <p><strong>Reservation ID:</strong> '' @ d_reservationId data @ js ''</p>\<newline>'' @
          js ''        '' @ (if truthy (d_deviceName data) then js ''<p><strong>Device:</strong> '' @ ToString (d_deviceName data) @ js ''</p>'' else js '''') @ js ''\<newline>'' @
          js ''        '' @ (if truthy (d_expiresAt data) then js ''<p><strong>Expired At:</strong> '' @ ToString (d_expiresAt data) @ js ''</p>'' else js '''') @ js ''\<newline>'' @
          js ''      </div>\<newline>'' @
          js ''      \<newline>'' @
          js ''      <p>The device is now available for other students to reserve. If you still need the device, please create a new reservation.</p>\<newline>'' @
          js ''    </div>\<newline>'' @
          js ''    <div class="footer">\<newline>'' @
          js ''      <p>If you have any questions, please contact us at '' @ SUPPORT_EMAIL @ js ''</p>\<newline>'' @
          js ''      <p>&copy; '' @ Number_toString fullYear @ js '' '' @ APP_NAME @ js ''</p>\<newline>'' @
          js ''    </div>\<newline>'' @
          js ''  </div>\<newline>'' @
          js ''</body>\<newline>'' @
          js ''</html>'',
     t_textBody =
          js ''\<newline>'' @
          APP_NAME @ js '' - Reservation Expired\<newline>'' @
          js ''\<newline>'' @
          js ''Unfortunately, your device reservation has expired because it was not collected within the 24-hour window.\<newline>'' @
          js ''\<newline>'' @
          js ''Reservation ID: '' @ d_reservationId data @ js ''\<newline>'' @
          (if truthy (d_deviceName data) then js ''Device: '' @ ToString (d_deviceName data) else js '''') @ js ''\<newline>'' @
          (if truthy (d_expiresAt data) then js ''Expired At: '' @ ToString (d_expiresAt data) else js '''') @ js ''\<newline>'' @
          js ''\<newline>'' @
          js ''The device is now available for other students to reserve. If you still need the device, please create a new reservation.\<newline>'' @
          js ''\<newline>'' @
          js ''If you have any questions, please contact us at '' @ SUPPORT_EMAIL @ js ''\<newline>'' \<rparr>\<close>

definition getReservationOverdueEmail :: "nat \<Rightarrow> ReservationEmailData \<Rightarrow> EmailTemplate" where
\<open>getReservationOverdueEmail fullYear data =
   \<lparr> t_subject = APP_NAME @ js '' - '' @ [0x26A0, 0xFE0F] @ js '' URGENT: Device return overdue'',
     t_htmlBody =
          js ''\<newline>'' @
          js ''<!DOCTYPE html>\<newline>'' @
          js ''<html>\<newline>'' @
          js ''<head>\<newline>'' @
          js ''  <style>\<newline>'' @
          js ''    body { font-family: Arial, sans-serif; line-height: 1.6; color: #333; }\<newline>'' @
          js ''    .container { max-width: 600px; margin: 0 auto; padding: 20px; }\<newline>'' @
          js ''    .header { background-color: #DC2626; color: white; padding: 20px; text-align: center; }\<newline>'' @
          js ''    .content { padding: 20px; background-color: #f9fafb; }\<newline>'' @
          js ''    .footer { padding: 20px; text-align: center; font-size: 12px; color: #666; }\<newline>'' @
          js ''    .highlight { background-color: #FEF2F2; padding: 15px; border-radius: 8px; margin: 15px 0; border: 2px solid #DC2626; }\<newline>'' @
          js ''  </style>\<newline>'' @
          js ''</head>\<newline>'' @
          js ''<body>\<newline>'' @
          js ''  <div class="container">\<newline>'' @
          js ''    <div class="header">\<newline>'' @
          js ''      <h1>'' @ [0x26A0, 0xFE0F] @ js '' URGENT</h1>\<newline>'' @
          js ''    </div>\<newline>'' @
          js ''    <div class="content">\<newline>'' @
          js ''      <h2>Device Return Overdue!</h2>\<newline>'' @
          js ''      <p>Your device loan is <strong>overdue</strong>. Please return the device as soon as possible.</p>\<newline>'' @
          js ''      \<newline>'' @
          js ''      <div class="highlight">\<newline>'' @
          js ''        <p><strong>Reservation ID:</strong> '' @ d_reservationId data @ js ''</p>\<newline>'' @
          js ''        '' @ (if truthy (d_deviceName data) then js ''<p><strong>Device:</strong> '' @ ToString (d_deviceName data) @ js ''</p>'' else js '''') @ js ''\<newline>'' @
          js ''        '' @ (if truthy (d_returnDueAt data) then js ''<p><strong>Was Due:</strong> '' @ ToString (d_returnDueAt data) @ js ''</p>'' else js '''') @ js ''\<newline>'' @
          js ''      </div>\<newline>'' @
          js ''      \<newline>'' @
          js ''      <p><strong>Please return the device immediately to avoid any penalties.</strong></p>\<newline>'' @
          js ''      \<newline>'' @
          js ''      <p>If you are experiencing difficulties returning the device, please contact the IT desk immediately.</p>\<newline>'' @
          js ''    </div>\<newline>'' @
          js ''    <div class="footer">\<newline>'' @
          js ''      <p>Contact us at '' @ SUPPORT_EMAIL @ js ''</p>\<newline>'' @
          js ''      <p>&copy; '' @ Number_toString fullYear @ js '' '' @ APP_NAME @ js ''</p>\<newline>'' @
          js ''    </div>\<newline>'' @
          js ''  </div>\<newline>'' @
          js ''</body>\<newline>'' @
          js ''</html>'',
     t_textBody =
          js ''\<newline>'' @
          APP_NAME @ js '' - URGENT: Device Return Overdue!\<newline>'' @
          js ''\<newline>'' @
          js ''Your device loan is OVERDUE. Please return the device as soon as possible.\<newline>'' @
          js ''\<newline>'' @
          js ''Reservation ID: '' @ d_reservationId data @ js ''\<newline>'' @
          (if truthy (d_deviceName data) then js ''Device: '' @ ToString (d_deviceName data) else js '''') @ js ''\<newline>'' @
          (if truthy (d_returnDueAt data) then js ''Was Due: '' @ ToString (d_returnDueAt data) else js '''') @ js ''\<newline>'' @
          js ''\<newline>'' @
          js ''Please return the device immediately to avoid any penalties.\<newline>'' @
          js ''\<newline>'' @
          js ''If you are experiencing difficulties returning the device, please contact the IT desk immediately.\<newline>'' @
          js ''\<newline>'' @
          js ''Contact us at '' @ SUPPORT_EMAIL @ js ''\<newline>'' \<rparr>\<close>

text \<open>
  \<open>getEmailTemplate\<close>: the \<open>switch\<close> over the type. Its \<open>default\<close> branch throws
  for a value outside the enum; no value of the type \<open>NotificationType\<close> reaches it.
\<close>

fun getEmailTemplate :: "nat \<Rightarrow> NotificationType \<Rightarrow> ReservationEmailData \<Rightarrow> EmailTemplate" where
  "getEmailTemplate fullYear ReservationCreated data = getReservationCreatedEmail fullYear data"
| "getEmailTemplate fullYear ReservationCollected data = getReservationCollectedEmail fullYear data"
| "getEmailTemplate fullYear ReservationReturned data = getReservationReturnedEmail fullYear data"
| "getEmailTemplate fullYear ReservationCancelled data = getReservationCancelledEmail fullYear data"
| "getEmailTemplate fullYear ReservationExpired data = getReservationExpiredEmail fullYear data"
| "getEmailTemplate fullYear ReservationOverdue data = getReservationOverdueEmail fullYear data"

section \<open>Ports: the email sender and the notification repository\<close>

record EmailSendResult =
  r_success :: bool
  r_messageId :: "jsstring option"
  r_error :: "jsstring option"

record EmailContent =
  c_to :: jsstring
  c_subject :: jsstring
  c_htmlBody :: jsstring
  c_textBody :: "jsstring option"

text \<open>
  The two collaborators are interfaces. A method takes the state of the outside world
  \<open>'w\<close> and returns the new one; its promise either resolves (\<open>Inr\<close>) or rejects
  (\<open>Inl\<close>, with the message that the \<open>catch\<close> block of the use case reads from the
  thrown value). Of the repository only \<open>save\<close> is called by the use case.
\<close>

record 'w EmailSender =
  sendEmail :: "EmailContent \<Rightarrow> 'w \<Rightarrow> (jsstring + EmailSendResult) \<times> 'w"

record 'w NotificationRepo =
  save :: "EmailNotification \<Rightarrow> 'w \<Rightarrow> (jsstring + EmailNotification) \<times> 'w"

section \<open>The use case sendReservationEmail\<close>

record 'w SendReservationEmailDeps =
  emailSender :: "'w EmailSender"
  notificationRepo :: "'w NotificationRepo"

text \<open>
  \<open>deviceId\<close> and \<open>deviceModelId\<close> are declared as strings, but the use case never
  reads them and the event adapter hands the payload on unchecked, so they may be absent.
\<close>

record ReservationEventData =
  e_reservationId :: jsstring
  e_userId :: jsstring
  e_userEmail :: jsstring
  e_deviceId :: "jsstring option"
  e_deviceModelId :: "jsstring option"
  e_deviceName :: "jsstring option"
  e_reservedAt :: "jsstring option"
  e_expiresAt :: "jsstring option"
  e_collectedAt :: "jsstring option"
  e_returnDueAt :: "jsstring option"
  e_returnedAt :: "jsstring option"
  e_cancelledAt :: "jsstring option"

record SendReservationEmailResult =
  res_success :: bool
  res_notification :: "EmailNotification option"
  res_error :: "jsstring option"

text \<open>
  What the JavaScript runtime supplies during one call: the result of \<open>randomUUID()\<close>,
  the year read by the template, the clock read by \<open>createEmailNotification\<close>, the clock
  read by \<open>markNotificationSent\<close> or \<open>markNotificationFailed\<close>, and the lower-casing of
  strings.
\<close>

record Runtime =
  rt_randomUUID :: jsstring
  rt_fullYear :: nat
  rt_createNow :: Date
  rt_markNow :: Date
  rt_toLowerCase :: "jsstring \<Rightarrow> jsstring"

text \<open>
  The effects of a call: the state of the outside world, the calls made to the two
  collaborators in the order they were made, and the lines written to the console.
\<close>

datatype call = Save EmailNotification | SendEmail EmailContent

datatype console_line = ConsoleLog jsstring | ConsoleError jsstring

record 'w effects =
  world :: 'w
  calls :: "call list"
  console :: "console_line list"

definition await_save ::
  "'w SendReservationEmailDeps \<Rightarrow> EmailNotification \<Rightarrow> 'w effects \<Rightarrow>
   (jsstring + EmailNotification) \<times> 'w effects" where
  "await_save deps notification st =
     (case save (notificationRepo deps) notification (world st) of
        (outcome, w) \<Rightarrow> (outcome, st \<lparr> world := w, calls := calls st @ [Save notification] \<rparr>))"

definition await_sendEmail ::
  "'w SendReservationEmailDeps \<Rightarrow> EmailContent \<Rightarrow> 'w effects \<Rightarrow>
   (jsstring + EmailSendResult) \<times> 'w effects" where
  "await_sendEmail deps content st =
     (case sendEmail (emailSender deps) content (world st) of
        (outcome, w) \<Rightarrow> (outcome, st \<lparr> world := w, calls := calls st @ [SendEmail content] \<rparr>))"

definition console_log :: "jsstring \<Rightarrow> 'w effects \<Rightarrow> 'w effects" where
  "console_log line st = st \<lparr> console := console st @ [ConsoleLog line] \<rparr>"

definition console_error :: "jsstring \<Rightarrow> 'w effects \<Rightarrow> 'w effects" where
  "console_error line st = st \<lparr> console := console st @ [ConsoleError line] \<rparr>"

text \<open>
  The body of the \<open>try\<close> block. \<open>Inl message\<close> is an exception leaving the block, with
  the message that the \<open>catch\<close> block computes from it; the effects made before the
  exception stay.
\<close>

definition sendReservationEmail_try ::
  "'w SendReservationEmailDeps \<Rightarrow> Runtime \<Rightarrow> NotificationType \<Rightarrow> ReservationEventData \<Rightarrow>
   'w effects \<Rightarrow> (jsstring + SendReservationEmailResult) \<times> 'w effects" where
  "sendReservationEmail_try deps rt eventType eventData st =
     (let templateData =
            \<lparr> d_userEmail = e_userEmail eventData,
              d_reservationId = e_reservationId eventData,
              d_deviceName = e_deviceName eventData,
              d_reservedAt = e_reservedAt eventData,
              d_expiresAt = e_expiresAt eventData,
              d_collectedAt = e_collectedAt eventData,
              d_returnDueAt = e_returnDueAt eventData,
              d_returnedAt = e_returnedAt eventData \<rparr>;
          template = getEmailTemplate (rt_fullYear rt) eventType templateData
      in
      case createEmailNotification (rt_toLowerCase rt) (rt_createNow rt)
             \<lparr> p_id = rt_randomUUID rt,
               p_userId = e_userId eventData,
               p_userEmail = e_userEmail eventData,
               p_type = eventType,
               p_subject = t_subject template,
               p_htmlBody = t_htmlBody template,
               p_textBody = Some (t_textBody template),
               p_reservationId = e_reservationId eventData \<rparr> of
        Inl e \<Rightarrow> (Inl (message e), st)
      | Inr created \<Rightarrow>
          (case await_save deps created st of
             (Inl thrown, st1) \<Rightarrow> (Inl thrown, st1)
           | (Inr pending, st1) \<Rightarrow>
               (case await_sendEmail deps
                       \<lparr> c_to = e_userEmail eventData,
                         c_subject = t_subject template,
                         c_htmlBody = t_htmlBody template,
                         c_textBody = Some (t_textBody template) \<rparr> st1 of
                  (Inl thrown, st2) \<Rightarrow> (Inl thrown, st2)
                | (Inr sendResult, st2) \<Rightarrow>
                    if r_success sendResult then
                      (case await_save deps (markNotificationSent (rt_markNow rt) pending) st2 of
                         (Inl thrown, st3) \<Rightarrow> (Inl thrown, st3)
                       | (Inr notification, st3) \<Rightarrow>
                           (Inr \<lparr> res_success = True,
                                  res_notification = Some notification,
                                  res_error = None \<rparr>,
                            console_log
                              (js ''Email sent successfully: '' @ id' notification @
                               js '' to '' @ e_userEmail eventData) st3))
                    else
                      (case await_save deps
                              (markNotificationFailed (rt_markNow rt) pending
                                 (logicalOr (r_error sendResult) (js ''Unknown error''))) st2 of
                         (Inl thrown, st3) \<Rightarrow> (Inl thrown, st3)
                       | (Inr notification, st3) \<Rightarrow>
                           (Inr \<lparr> res_success = False,
                                  res_notification = Some notification,
                                  res_error = r_error sendResult \<rparr>,
                            console_error
                              (js ''Email send failed: '' @ id' notification @
                               js '' - '' @ ToString (r_error sendResult)) st3)))))"

definition sendReservationEmail ::
  "'w SendReservationEmailDeps \<Rightarrow> Runtime \<Rightarrow> NotificationType \<Rightarrow> ReservationEventData \<Rightarrow>
   'w effects \<Rightarrow> SendReservationEmailResult \<times> 'w effects" where
  "sendReservationEmail deps rt eventType eventData st =
     (case sendReservationEmail_try deps rt eventType eventData st of
        (Inr result, st') \<Rightarrow> (result, st')
      | (Inl thrown, st') \<Rightarrow>
          (\<lparr> res_success = False, res_notification = None, res_error = Some thrown \<rparr>,
           console_error (js ''Error in sendReservationEmail: '' @ thrown) st'))"

section \<open>Notions used by the properties\<close>

subsection \<open>The steps of the use case\<close>

text \<open>
  Names for the values that \<open>sendReservationEmail\<close> builds on its way: the rendered
  template, the parameters it hands to \<open>createEmailNotification\<close>, the outcome of that
  call, and the content it hands to the email sender.
\<close>

definition templateFor :: "Runtime \<Rightarrow> NotificationType \<Rightarrow> ReservationEventData \<Rightarrow> EmailTemplate" where
  "templateFor rt eventType eventData =
     getEmailTemplate (rt_fullYear rt) eventType
       \<lparr> d_userEmail = e_userEmail eventData,
         d_reservationId = e_reservationId eventData,
         d_deviceName = e_deviceName eventData,
         d_reservedAt = e_reservedAt eventData,
         d_expiresAt = e_expiresAt eventData,
         d_collectedAt = e_collectedAt eventData,
         d_returnDueAt = e_returnDueAt eventData,
         d_returnedAt = e_returnedAt eventData \<rparr>"

definition paramsFor ::
  "Runtime \<Rightarrow> NotificationType \<Rightarrow> ReservationEventData \<Rightarrow> CreateEmailNotificationParams" where
  "paramsFor rt eventType eventData =
     \<lparr> p_id = rt_randomUUID rt,
       p_userId = e_userId eventData,
       p_userEmail = e_userEmail eventData,
       p_type = eventType,
       p_subject = t_subject (templateFor rt eventType eventData),
       p_htmlBody = t_htmlBody (templateFor rt eventType eventData),
       p_textBody = Some (t_textBody (templateFor rt eventType eventData)),
       p_reservationId = e_reservationId eventData \<rparr>"

definition createdFor ::
  "Runtime \<Rightarrow> NotificationType \<Rightarrow> ReservationEventData \<Rightarrow> NotificationError + EmailNotification" where
  "createdFor rt eventType eventData =
     createEmailNotification (rt_toLowerCase rt) (rt_createNow rt) (paramsFor rt eventType eventData)"

definition contentFor :: "Runtime \<Rightarrow> NotificationType \<Rightarrow> ReservationEventData \<Rightarrow> EmailContent" where
  "contentFor rt eventType eventData =
     \<lparr> c_to = e_userEmail eventData,
       c_subject = t_subject (templateFor rt eventType eventData),
       c_htmlBody = t_htmlBody (templateFor rt eventType eventData),
       c_textBody = Some (t_textBody (templateFor rt eventType eventData)) \<rparr>"

text \<open>A call starts with no collaborator called and nothing written to the console.\<close>

definition start :: "'w \<Rightarrow> 'w effects" where
  "start w = \<lparr> world = w, calls = [], console = [] \<rparr>"

text \<open>
  What \<open>randomUUID()\<close> returns: 36 characters, hyphens at the positions 8, 13, 18 and 23,
  lower-case hexadecimal digits elsewhere.
\<close>

definition isHexDigit :: "16 word \<Rightarrow> bool" where
  "isHexDigit c = ((0x30 \<le> c \<and> c \<le> 0x39) \<or> (0x61 \<le> c \<and> c \<le> 0x66))"

definition isUUID :: "jsstring \<Rightarrow> bool" where
  "isUUID u =
     (length u = 36 \<and>
      list_all (\<lambda>(i, c). if i = 8 \<or> i = 13 \<or> i = 18 \<or> i = 23 then c = 0x2D else isHexDigit c)
        (enumerate (0::nat) u))"

subsection \<open>The specification's words\<close>

text \<open>
  The invariants of the data model on construction parameters: the six text fields are
  non-empty after trimming, the email has the shape \<open>local@domain.tld\<close>, and the type is
  one of the recognised notification types.
\<close>

definition satisfies_invariants :: "CreateEmailNotificationParams \<Rightarrow> bool" where
  "satisfies_invariants params =
     (trim (p_id params) \<noteq> [] \<and> trim (p_userId params) \<noteq> [] \<and>
      trim (p_userEmail params) \<noteq> [] \<and> trim (p_subject params) \<noteq> [] \<and>
      trim (p_htmlBody params) \<noteq> [] \<and> trim (p_reservationId params) \<noteq> [] \<and>
      emailRegex_test (trim (p_userEmail params)) \<and>
      p_type params \<in> set NotificationType_values)"

text \<open>
  The checks of \<open>create\<close> in the order the specification lists them, each with the
  field it reports: id, userId, userEmail (non-empty), userEmail (format), subject,
  htmlBody, reservationId, type. \<open>first_invalid_field\<close> is the field of the first check
  that fails, if any does.
\<close>

definition create_checks :: "(string \<times> (CreateEmailNotificationParams \<Rightarrow> bool)) list" where
  "create_checks =
     [(''id'', \<lambda>p. trim (p_id p) \<noteq> []),
      (''userId'', \<lambda>p. trim (p_userId p) \<noteq> []),
      (''userEmail'', \<lambda>p. trim (p_userEmail p) \<noteq> []),
      (''userEmail'', \<lambda>p. emailRegex_test (trim (p_userEmail p))),
      (''subject'', \<lambda>p. trim (p_subject p) \<noteq> []),
      (''htmlBody'', \<lambda>p. trim (p_htmlBody p) \<noteq> []),
      (''reservationId'', \<lambda>p. trim (p_reservationId p) \<noteq> []),
      (''type'', \<lambda>p. p_type p \<in> set NotificationType_values)]"

definition first_invalid_field :: "CreateEmailNotificationParams \<Rightarrow> string option" where
  "first_invalid_field params =
     map_option fst (find (\<lambda>(name, passes). \<not> passes params) create_checks)"

text \<open>
  \<open>markNotificationFailed\<close> applied in a chain, once for each element of a list of
  clock readings and reasons.
\<close>

fun markFailedChain :: "(Date \<times> jsstring) list \<Rightarrow> EmailNotification \<Rightarrow> EmailNotification" where
  "markFailedChain [] notification = notification"
| "markFailedChain ((now, reason) # rest) notification =
     markFailedChain rest (markNotificationFailed now notification reason)"


fun sendAttempts :: "call list \<Rightarrow> nat" where
  "sendAttempts [] = 0"
| "sendAttempts (Save n # cs) = sendAttempts cs"
| "sendAttempts (SendEmail c # cs) = Suc (sendAttempts cs)"

text \<open>
  Two orders of the collaborator calls of one invocation. \<open>writes_then_send\<close> is the
  order in the specification's sentence on side effects: one Pending write, one terminal
  write, then at most one email. \<open>write_send_write\<close> is one Pending write, one email,
  one terminal write.
\<close>

definition terminal :: "NotificationStatus \<Rightarrow> bool" where
  "terminal s = (s = Sent \<or> s = Failed)"

fun writes_then_send :: "call list \<Rightarrow> bool" where
  "writes_then_send [Save p, Save t] = (status p = Pending \<and> terminal (status t))"
| "writes_then_send [Save p, Save t, SendEmail c] = (status p = Pending \<and> terminal (status t))"
| "writes_then_send cs = False"

fun write_send_write :: "call list \<Rightarrow> bool" where
  "write_send_write [Save p, SendEmail c, Save t] = (status p = Pending \<and> terminal (status t))"
| "write_send_write cs = False"

subsection \<open>Collaborators and inputs for concrete runs\<close>

text \<open>
  An in-memory repository (the world is the list of stored records, \<open>save\<close> replaces the
  record with the same id), a repository that is unavailable for every record that is not
  Pending, and an email sender that resolves with a given result.
\<close>

definition memoryRepo :: "EmailNotification list NotificationRepo" where
  "memoryRepo =
     \<lparr> save = (\<lambda>n w. (Inr n, n # filter (\<lambda>m. id' m \<noteq> id' n) w)) \<rparr>"


definition fixedSender :: "EmailSendResult \<Rightarrow> EmailNotification list EmailSender" where
  "fixedSender result = \<lparr> sendEmail = (\<lambda>content w. (Inr result, w)) \<rparr>"

definition delivered :: EmailSendResult where
  "delivered = \<lparr> r_success = True, r_messageId = Some (js ''msg-1''), r_error = None \<rparr>"


definition depsWith ::
  "EmailSendResult \<Rightarrow> EmailNotification list NotificationRepo \<Rightarrow>
   EmailNotification list SendReservationEmailDeps" where
  "depsWith result repo = \<lparr> emailSender = fixedSender result, notificationRepo = repo \<rparr>"

definition asciiLower :: "jsstring \<Rightarrow> jsstring" where
  "asciiLower s = map (\<lambda>c. if 0x41 \<le> c \<and> c \<le> 0x5A then c + 0x20 else c) s"

definition sampleRuntime :: Runtime where
  "sampleRuntime =
     \<lparr> rt_randomUUID = js ''1b4e28ba-2fa1-41d2-883f-0016d3cca427'',
       rt_fullYear = 2026,
       rt_createNow = 1793700000000,
       rt_markNow = 1793700000250,
       rt_toLowerCase = asciiLower \<rparr>"

definition sampleEvent :: "jsstring \<Rightarrow> jsstring \<Rightarrow> ReservationEventData" where
  "sampleEvent uid email =
     \<lparr> e_reservationId = js ''R1'', e_userId = uid, e_userEmail = email,
       e_deviceId = None, e_deviceModelId = None, e_deviceName = None, e_reservedAt = None,
       e_expiresAt = None, e_collectedAt = None, e_returnDueAt = None, e_returnedAt = None,
       e_cancelledAt = None \<rparr>"

definition sampleParams :: CreateEmailNotificationParams where
  "sampleParams =
     \<lparr> p_id = js '' n-1 '', p_userId = js ''U1'', p_userEmail = js ''  Ann@Example.COM '',
       p_type = ReservationOverdue, p_subject = js ''Overdue'', p_htmlBody = js ''<p>late</p>'',
       p_textBody = None, p_reservationId = js ''R1'' \<rparr>"

text \<open>The notification that \<open>createEmailNotification\<close> makes of \<open>sampleParams\<close>.\<close>

definition sampleStored :: EmailNotification where
  "sampleStored =
     \<lparr> id' = trim (p_id sampleParams),
       userId = trim (p_userId sampleParams),
       userEmail = asciiLower (trim (p_userEmail sampleParams)),
       type = p_type sampleParams,
       subject = trim (p_subject sampleParams),
       htmlBody = p_htmlBody sampleParams,
       textBody = map_option trim (p_textBody sampleParams),
       status = Pending,
       reservationId = trim (p_reservationId sampleParams),
       createdAt = 1793700000000,
       sentAt = None,
       failureReason = None,
       retryCount = 0,
       updatedAt = 1793700000000 \<rparr>"

section \<open>Auxiliary lemmas\<close>

subsection \<open>Trimming and validation\<close>

lemma trim_eq_Nil_iff: "trim s = [] \<longleftrightarrow> (\<forall>c\<in>set s. isWhiteSpace c)"
proof -
  have "dropWhile isWhiteSpace (rev (dropWhile isWhiteSpace s)) = [] \<longleftrightarrow>
        dropWhile isWhiteSpace s = []"
  proof
    assume a: "dropWhile isWhiteSpace (rev (dropWhile isWhiteSpace s)) = []"
    show "dropWhile isWhiteSpace s = []"
    proof (rule ccontr)
      assume n: "dropWhile isWhiteSpace s \<noteq> []"
      then have "\<not> isWhiteSpace (hd (dropWhile isWhiteSpace s))"
        by (rule hd_dropWhile)
      moreover have "hd (dropWhile isWhiteSpace s) \<in> set (rev (dropWhile isWhiteSpace s))"
        using n by simp
      ultimately show False using a by auto
    qed
  next
    assume e: "dropWhile isWhiteSpace s = []"
    show "dropWhile isWhiteSpace (rev (dropWhile isWhiteSpace s)) = []"
      unfolding e by simp
  qed
  then show ?thesis by (simp add: trim_def)
qed

lemma trim_nonblank: "c \<in> set s \<Longrightarrow> \<not> isWhiteSpace c \<Longrightarrow> trim s \<noteq> []"
  by (auto simp: trim_eq_Nil_iff)

lemma trim_Nil: "trim [] = []"
  by (simp add: trim_def)

text \<open>
  \<open>emailRegex_test\<close> decides what the regular expression says: the string is a
  non-empty run of class characters, an \<open>@\<close>, a non-empty run of class characters, a
  dot, and a non-empty run of class characters.
\<close>

lemma emailChar_at_dot: "\<not> emailChar 0x40" "emailChar 0x2E"
  by (simp_all add: emailChar_def isWhiteSpace_def)

lemma emailRegex_test_iff:
  "emailRegex_test s \<longleftrightarrow>
     (\<exists>a b c. s = a @ [0x40] @ b @ [0x2E] @ c \<and> a \<noteq> [] \<and> b \<noteq> [] \<and> c \<noteq> [] \<and>
              list_all emailChar a \<and> list_all emailChar b \<and> list_all emailChar c)"
proof
  assume t: "emailRegex_test s"
  define a where "a = takeWhile emailChar s"
  from t obtain rest where d: "dropWhile emailChar s = 0x40 # rest"
    and r: "list_all emailChar rest" and dot: "0x2E \<in> set (butlast (tl rest))"
    and a: "a \<noteq> []"
    by (auto simp: emailRegex_test_def a_def split: list.splits)
  from dot obtain xs ys where b: "butlast (tl rest) = xs @ 0x2E # ys"
    by (auto dest: split_list)
  then have n: "tl rest \<noteq> []" by auto
  then have "tl rest = (xs @ 0x2E # ys) @ [last (tl rest)]"
    using b append_butlast_last_id [of "tl rest"] by simp
  moreover from n have "rest = hd rest # tl rest" by (cases rest) auto
  ultimately have rest: "rest = (hd rest # xs) @ [0x2E] @ (ys @ [last (tl rest)])"
    by simp
  have s: "s = a @ [0x40] @ rest"
    using takeWhile_dropWhile_id [of emailChar s] d by (simp add: a_def)
  have la: "list_all emailChar a"
    by (auto simp: a_def list_all_iff dest: set_takeWhileD)
  have "list_all emailChar (hd rest # xs) \<and> list_all emailChar (ys @ [last (tl rest)])"
    using r by (subst (asm) rest) simp
  then show "\<exists>a b c. s = a @ [0x40] @ b @ [0x2E] @ c \<and> a \<noteq> [] \<and> b \<noteq> [] \<and> c \<noteq> [] \<and>
              list_all emailChar a \<and> list_all emailChar b \<and> list_all emailChar c"
    using s rest a la
    by (intro exI [of _ a] exI [of _ "hd rest # xs"] exI [of _ "ys @ [last (tl rest)]"]) simp
next
  assume "\<exists>a b c. s = a @ [0x40] @ b @ [0x2E] @ c \<and> a \<noteq> [] \<and> b \<noteq> [] \<and> c \<noteq> [] \<and>
              list_all emailChar a \<and> list_all emailChar b \<and> list_all emailChar c"
  then obtain a b c where s: "s = a @ [0x40] @ b @ [0x2E] @ c"
    and ne: "a \<noteq> []" "b \<noteq> []" "c \<noteq> []"
    and l: "list_all emailChar a" "list_all emailChar b" "list_all emailChar c"
    by blast
  have tw: "takeWhile emailChar s = a"
    unfolding s using l(1) emailChar_at_dot(1) by (simp add: takeWhile_append2 list_all_iff)
  have dw: "dropWhile emailChar s = 0x40 # b @ [0x2E] @ c"
    unfolding s using l(1) emailChar_at_dot(1) by (simp add: dropWhile_append2 list_all_iff)
  obtain b0 bs where b: "b = b0 # bs" using ne(2) by (cases b) auto
  have "butlast (tl (b @ [0x2E] @ c)) = bs @ 0x2E # butlast c"
    using ne(3) by (simp add: b butlast_append)
  then have "0x2E \<in> set (butlast (tl (b @ [0x2E] @ c)))" by simp
  then show "emailRegex_test s"
    unfolding emailRegex_test_def tw dw using ne(1) l emailChar_at_dot(2) by simp
qed

lemma type_recognised: "ty \<in> set NotificationType_values"
  by (cases ty) (simp_all add: NotificationType_values_def)

lemma validate_cases:
  "validateCreateEmailNotification p =
     (if trim (p_id p) = [] then
        Inl (NotificationError (js ''id'') (js ''Notification id must be a non-empty string.''))
      else if trim (p_userId p) = [] then
        Inl (NotificationError (js ''userId'') (js ''Notification userId must be a non-empty string.''))
      else if trim (p_userEmail p) = [] then
        Inl (NotificationError (js ''userEmail'') (js ''Notification userEmail must be a non-empty string.''))
      else if \<not> emailRegex_test (trim (p_userEmail p)) then
        Inl (NotificationError (js ''userEmail'') (js ''Notification userEmail must be a valid email address.''))
      else if trim (p_subject p) = [] then
        Inl (NotificationError (js ''subject'') (js ''Notification subject must be a non-empty string.''))
      else if trim (p_htmlBody p) = [] then
        Inl (NotificationError (js ''htmlBody'') (js ''Notification htmlBody must be a non-empty string.''))
      else if trim (p_reservationId p) = [] then
        Inl (NotificationError (js ''reservationId'') (js ''Notification reservationId must be a non-empty string.''))
      else Inr ())"
proof -
  have t: "p_type p \<in> set NotificationType_values"
    by (cases "p_type p") (simp_all add: NotificationType_values_def)
  have e: "\<And>s. (s = [] \<or> trim s = []) = (trim s = [])"
    using trim_Nil by auto
  show ?thesis
    unfolding validateCreateEmailNotification_def e using t by simp
qed

lemma create_Inr_iff:
  "(\<exists>n. createEmailNotification lc now p = Inr n) \<longleftrightarrow> validateCreateEmailNotification p = Inr ()"
  by (auto simp: createEmailNotification_def split: sum.splits)

lemma create_Inl_iff:
  "createEmailNotification lc now p = Inl e \<longleftrightarrow> validateCreateEmailNotification p = Inl e"
  by (auto simp: createEmailNotification_def split: sum.splits)

lemma create_valid:
  "validateCreateEmailNotification p = Inr () \<Longrightarrow>
   createEmailNotification lc now p =
     Inr \<lparr> id' = trim (p_id p), userId = trim (p_userId p),
           userEmail = lc (trim (p_userEmail p)), type = p_type p,
           subject = trim (p_subject p), htmlBody = p_htmlBody p,
           textBody = map_option trim (p_textBody p), status = Pending,
           reservationId = trim (p_reservationId p), createdAt = now, sentAt = None,
           failureReason = None, retryCount = 0, updatedAt = now \<rparr>"
  by (simp add: createEmailNotification_def)

lemma validate_invariants:
  "validateCreateEmailNotification p = Inr () \<longleftrightarrow> satisfies_invariants p"
proof -
  have t: "p_type p \<in> set NotificationType_values"
    by (cases "p_type p") (simp_all add: NotificationType_values_def)
  show ?thesis
    unfolding validate_cases satisfies_invariants_def using t by auto
qed

lemma addOne_exact: "n < 2 ^ 53 \<Longrightarrow> addOne n = n + 1"
  by (simp add: addOne_def)

lemma addOne_limit: "addOne (2 ^ 53) = 2 ^ 53"
  by (simp add: addOne_def)

lemma retryCount_markFailed:
  "retryCount (markNotificationFailed now n reason) = addOne (retryCount n)"
  by (simp add: markNotificationFailed_def)

lemma retryCount_chain:
  "retryCount n \<le> 2 ^ 53 \<Longrightarrow>
   retryCount (markFailedChain fs n) = min (retryCount n + length fs) (2 ^ 53)"
proof (induction fs arbitrary: n)
  case Nil
  then show ?case by simp
next
  case (Cons f fs)
  obtain now reason where f: "f = (now, reason)" by (cases f)
  show ?case
  proof (cases "retryCount n < 2 ^ 53")
    case True
    then have "retryCount (markNotificationFailed now n reason) = retryCount n + 1"
      by (simp add: retryCount_markFailed addOne_exact)
    moreover from True have "retryCount n + 1 \<le> 2 ^ 53" by simp
    ultimately show ?thesis
      using Cons.IH [of "markNotificationFailed now n reason"] by (simp add: f)
  next
    case False
    with Cons.prems have e: "retryCount n = 2 ^ 53" by simp
    then have "retryCount (markNotificationFailed now n reason) = 2 ^ 53"
      by (simp only: retryCount_markFailed addOne_limit)
    then show ?thesis
      using Cons.IH [of "markNotificationFailed now n reason"] e by (simp add: f)
  qed
qed



subsection \<open>The templates pass validation\<close>

lemma subject_nonblank: "trim (t_subject (getEmailTemplate y ty d)) \<noteq> []"
proof -
  have "0x44 \<in> set APP_NAME" by (simp add: APP_NAME_def js_def)
  then have "0x44 \<in> set (t_subject (getEmailTemplate y ty d))"
    by (cases ty) (simp_all add: getReservationCreatedEmail_def getReservationCollectedEmail_def
      getReservationReturnedEmail_def getReservationCancelledEmail_def
      getReservationExpiredEmail_def getReservationOverdueEmail_def)
  moreover have "\<not> isWhiteSpace 0x44" by (simp add: isWhiteSpace_def)
  ultimately show ?thesis by (rule trim_nonblank)
qed

lemma htmlBody_nonblank: "trim (t_htmlBody (getEmailTemplate y ty d)) \<noteq> []"
proof -
  have "0x3C \<in> set (js ''<!DOCTYPE html>\<newline>'')" by (simp add: js_def)
  then have "0x3C \<in> set (t_htmlBody (getEmailTemplate y ty d))"
    by (cases ty) (simp_all only: getEmailTemplate.simps getReservationCreatedEmail_def getReservationCollectedEmail_def
      getReservationReturnedEmail_def getReservationCancelledEmail_def
      getReservationExpiredEmail_def getReservationOverdueEmail_def EmailTemplate.simps set_append Un_iff simp_thms)
  moreover have "\<not> isWhiteSpace 0x3C" by (simp add: isWhiteSpace_def)
  ultimately show ?thesis by (rule trim_nonblank)
qed

lemma isUUID_nonblank: "isUUID u \<Longrightarrow> trim u \<noteq> []"
proof -
  assume u: "isUUID u"
  then obtain c r where cr: "u = c # r" by (cases u) (auto simp: isUUID_def)
  with u have "isHexDigit c" by (simp add: isUUID_def enumerate_simps)
  then have "\<not> isWhiteSpace c"
    unfolding isHexDigit_def isWhiteSpace_def
    by (auto simp: word_le_def word_less_def)
  then show ?thesis using cr trim_nonblank [of c u] by simp
qed

subsection \<open>The paths through the use case\<close>

lemma createdFor_cases:
  "createdFor rt ty ev =
     (if trim (rt_randomUUID rt) = [] then
        Inl (NotificationError (js ''id'') (js ''Notification id must be a non-empty string.''))
      else if trim (e_userId ev) = [] then
        Inl (NotificationError (js ''userId'') (js ''Notification userId must be a non-empty string.''))
      else if trim (e_userEmail ev) = [] then
        Inl (NotificationError (js ''userEmail'') (js ''Notification userEmail must be a non-empty string.''))
      else if \<not> emailRegex_test (trim (e_userEmail ev)) then
        Inl (NotificationError (js ''userEmail'') (js ''Notification userEmail must be a valid email address.''))
      else if trim (e_reservationId ev) = [] then
        Inl (NotificationError (js ''reservationId'') (js ''Notification reservationId must be a non-empty string.''))
      else
        Inr \<lparr> id' = trim (rt_randomUUID rt), userId = trim (e_userId ev),
              userEmail = rt_toLowerCase rt (trim (e_userEmail ev)), type = ty,
              subject = trim (t_subject (templateFor rt ty ev)),
              htmlBody = t_htmlBody (templateFor rt ty ev),
              textBody = Some (trim (t_textBody (templateFor rt ty ev))), status = Pending,
              reservationId = trim (e_reservationId ev), createdAt = rt_createNow rt,
              sentAt = None, failureReason = None, retryCount = 0,
              updatedAt = rt_createNow rt \<rparr>)"
proof -
  have s: "trim (t_subject (templateFor rt ty ev)) \<noteq> []"
    unfolding templateFor_def by (rule subject_nonblank)
  have h: "trim (t_htmlBody (templateFor rt ty ev)) \<noteq> []"
    unfolding templateFor_def by (rule htmlBody_nonblank)
  show ?thesis
    unfolding createdFor_def createEmailNotification_def validate_cases
    using s h by (simp add: paramsFor_def)
qed

lemma created_fresh:
  "createdFor rt ty ev = Inr n \<Longrightarrow> status n = Pending \<and> retryCount n = 0 \<and> sentAt n = None"
  by (auto simp: createdFor_def createEmailNotification_def split: sum.splits)

lemma try_steps:
  "sendReservationEmail_try deps rt ty ev st =
     (case createdFor rt ty ev of
        Inl e \<Rightarrow> (Inl (message e), st)
      | Inr created \<Rightarrow>
          (case await_save deps created st of
             (Inl thrown, st1) \<Rightarrow> (Inl thrown, st1)
           | (Inr pending, st1) \<Rightarrow>
               (case await_sendEmail deps (contentFor rt ty ev) st1 of
                  (Inl thrown, st2) \<Rightarrow> (Inl thrown, st2)
                | (Inr sendResult, st2) \<Rightarrow>
                    if r_success sendResult then
                      (case await_save deps (markNotificationSent (rt_markNow rt) pending) st2 of
                         (Inl thrown, st3) \<Rightarrow> (Inl thrown, st3)
                       | (Inr notification, st3) \<Rightarrow>
                           (Inr \<lparr> res_success = True,
                                  res_notification = Some notification,
                                  res_error = None \<rparr>,
                            console_log
                              (js ''Email sent successfully: '' @ id' notification @
                               js '' to '' @ e_userEmail ev) st3))
                    else
                      (case await_save deps
                              (markNotificationFailed (rt_markNow rt) pending
                                 (logicalOr (r_error sendResult) (js ''Unknown error''))) st2 of
                         (Inl thrown, st3) \<Rightarrow> (Inl thrown, st3)
                       | (Inr notification, st3) \<Rightarrow>
                           (Inr \<lparr> res_success = False,
                                  res_notification = Some notification,
                                  res_error = r_error sendResult \<rparr>,
                            console_error
                              (js ''Email send failed: '' @ id' notification @
                               js '' - '' @ ToString (r_error sendResult)) st3)))))"
  unfolding sendReservationEmail_try_def createdFor_def paramsFor_def contentFor_def
    templateFor_def Let_def ..


lemma run_sent:
  assumes "createdFor rt ty ev = Inr n0"
    and "save (notificationRepo deps) n0 w = (Inr n1, w1)"
    and "sendEmail (emailSender deps) (contentFor rt ty ev) w1 = (Inr r, w2)"
    and "r_success r"
    and "save (notificationRepo deps) (markNotificationSent (rt_markNow rt) n1) w2 = (Inr n3, w3)"
  shows "sendReservationEmail deps rt ty ev (start w) =
           (\<lparr> res_success = True, res_notification = Some n3, res_error = None \<rparr>,
            \<lparr> world = w3,
              calls = [Save n0, SendEmail (contentFor rt ty ev),
                       Save (markNotificationSent (rt_markNow rt) n1)],
              console = [ConsoleLog (js ''Email sent successfully: '' @ id' n3 @ js '' to '' @
                                     e_userEmail ev)] \<rparr>)"
  using assms
  by (simp add: sendReservationEmail_def try_steps await_save_def await_sendEmail_def
      start_def console_log_def)


lemma run_create_throws:
  "createdFor rt ty ev = Inl e \<Longrightarrow>
   sendReservationEmail deps rt ty ev st =
     (\<lparr> res_success = False, res_notification = None, res_error = Some (message e) \<rparr>,
      console_error (js ''Error in sendReservationEmail: '' @ message e) st)"
  by (simp add: sendReservationEmail_def try_steps)

lemma calls_sendReservationEmail:
  "calls (snd (sendReservationEmail deps rt ty ev st)) =
   calls (snd (sendReservationEmail_try deps rt ty ev st))"
  by (simp add: sendReservationEmail_def console_error_def split: prod.splits sum.splits)

lemma try_calls:
  "calls (snd (sendReservationEmail_try deps rt ty ev (start w))) =
     (case createdFor rt ty ev of
        Inl e \<Rightarrow> []
      | Inr created \<Rightarrow>
          (case fst (await_save deps created (start w)) of
             Inl thrown \<Rightarrow> [Save created]
           | Inr pending \<Rightarrow>
               (case fst (await_sendEmail deps (contentFor rt ty ev)
                            (snd (await_save deps created (start w)))) of
                  Inl thrown \<Rightarrow> [Save created, SendEmail (contentFor rt ty ev)]
                | Inr r \<Rightarrow>
                    [Save created, SendEmail (contentFor rt ty ev),
                     Save (if r_success r then markNotificationSent (rt_markNow rt) pending
                           else markNotificationFailed (rt_markNow rt) pending
                                  (logicalOr (r_error r) (js ''Unknown error'')))])))"
  unfolding try_steps
  by (auto simp: await_save_def await_sendEmail_def start_def console_log_def console_error_def
      split: sum.splits prod.splits)

lemma try_resolved:
  assumes "fst (sendReservationEmail_try deps rt ty ev (start w)) = Inr result"
  shows "\<exists>created pending r.
     createdFor rt ty ev = Inr created \<and>
     fst (await_save deps created (start w)) = Inr pending \<and>
     fst (await_sendEmail deps (contentFor rt ty ev) (snd (await_save deps created (start w)))) =
       Inr r"
proof (cases "createdFor rt ty ev")
  case (Inl e)
  then show ?thesis using assms by (simp add: try_steps)
next
  case created: (Inr created)
  show ?thesis
  proof (cases "await_save deps created (start w)")
    case s1: (Pair o1 st1)
    show ?thesis
    proof (cases o1)
      case (Inl thrown)
      then show ?thesis using assms created s1 by (simp add: try_steps)
    next
      case pending: (Inr pending)
      show ?thesis
      proof (cases "await_sendEmail deps (contentFor rt ty ev) st1")
        case s2: (Pair o2 st2)
        show ?thesis
        proof (cases o2)
          case (Inl thrown)
          then show ?thesis using assms created s1 pending s2 by (simp add: try_steps)
        next
          case (Inr r)
          then show ?thesis using created s1 pending s2 by simp
        qed
      qed
    qed
  qed
qed

subsection \<open>The concrete collaborators and inputs\<close>

lemma sampleParams_trim:
  "trim (p_id sampleParams) = js ''n-1''"
  "trim (p_userId sampleParams) = js ''U1''"
  "trim (p_userEmail sampleParams) = js ''Ann@Example.COM''"
  "trim (p_subject sampleParams) = js ''Overdue''"
  "trim (p_htmlBody sampleParams) = js ''<p>late</p>''"
  "trim (p_reservationId sampleParams) = js ''R1''"
  by (simp_all add: sampleParams_def trim_def js_def isWhiteSpace_def)

lemma sampleParams_email: "emailRegex_test (js ''Ann@Example.COM'')"
  by (simp add: emailRegex_test_def js_def emailChar_def isWhiteSpace_def)

lemma sampleParams_valid: "satisfies_invariants sampleParams"
  unfolding satisfies_invariants_def sampleParams_trim
  using sampleParams_email type_recognised by (simp add: js_def)

lemma sampleParams_created:
  "\<exists>n. createEmailNotification lc now sampleParams = Inr n"
  using sampleParams_valid by (simp add: create_Inr_iff validate_invariants)

lemma memoryRepo_save:
  "save (notificationRepo (depsWith r memoryRepo)) n w =
     (Inr n, n # filter (\<lambda>m. id' m \<noteq> id' n) w)"
  by (simp add: depsWith_def memoryRepo_def)


lemma fixedSender_sendEmail:
  "sendEmail (emailSender (depsWith r repo)) c w = (Inr r, w)"
  by (simp add: depsWith_def fixedSender_def)

lemma sampleRuntime_uuid: "isUUID (rt_randomUUID sampleRuntime)"
  by (simp add: sampleRuntime_def isUUID_def js_def enumerate_simps isHexDigit_def)

lemma sample_email: "emailRegex_test (trim (js ''a@b.com''))"
  by (simp add: emailRegex_test_def trim_def js_def emailChar_def isWhiteSpace_def)

lemma sample_nonblank: "trim (js ''U1'') \<noteq> []" "trim (js ''R1'') \<noteq> []" "trim (js ''a@b.com'') \<noteq> []"
  by (simp_all add: trim_def js_def isWhiteSpace_def)

lemma sample_created:
  "\<exists>n. createdFor sampleRuntime ty (sampleEvent (js ''U1'') (js ''a@b.com'')) = Inr n \<and>
       status n = Pending \<and> retryCount n = 0"
  using isUUID_nonblank [OF sampleRuntime_uuid] sample_email sample_nonblank
  by (simp add: createdFor_cases sampleEvent_def)

lemma sample_delivered_run:
  "\<exists>n. createdFor sampleRuntime ReservationCreated (sampleEvent (js ''U1'') (js ''a@b.com'')) = Inr n \<and>
       status n = Pending \<and>
       fst (sendReservationEmail (depsWith delivered memoryRepo) sampleRuntime ReservationCreated
              (sampleEvent (js ''U1'') (js ''a@b.com'')) (start [])) =
         \<lparr> res_success = True,
           res_notification = Some (markNotificationSent (rt_markNow sampleRuntime) n),
           res_error = None \<rparr> \<and>
       calls (snd (sendReservationEmail (depsWith delivered memoryRepo) sampleRuntime ReservationCreated
              (sampleEvent (js ''U1'') (js ''a@b.com'')) (start []))) =
         [Save n,
          SendEmail (contentFor sampleRuntime ReservationCreated (sampleEvent (js ''U1'') (js ''a@b.com''))),
          Save (markNotificationSent (rt_markNow sampleRuntime) n)]"
proof -
  obtain n where n: "createdFor sampleRuntime ReservationCreated
                       (sampleEvent (js ''U1'') (js ''a@b.com'')) = Inr n"
    and p: "status n = Pending"
    using sample_created by blast
  have ok: "r_success delivered" by (simp add: delivered_def)
  show ?thesis
    using run_sent [OF n memoryRepo_save fixedSender_sendEmail ok memoryRepo_save] n p
    by simp
qed

lemma not_an_email: "trim (js ''not-an-email'') \<noteq> []" "\<not> emailRegex_test (trim (js ''not-an-email''))"
  by (simp_all add: emailRegex_test_def trim_def js_def emailChar_def isWhiteSpace_def)

section \<open>The notification lifecycle\<close>

text \<open>
  Claim C4. For all construction parameters that satisfy the validity invariants,
  \<open>createEmailNotification\<close> returns a notification with status Pending, retry count 0,
  \<open>createdAt\<close> equal to \<open>updatedAt\<close> (both the clock reading), and \<open>userEmail\<close> equal
  to the input email trimmed and then lower-cased.
\<close>

theorem create_pending:
  assumes "satisfies_invariants p"
  shows "\<exists>n. createEmailNotification lc now p = Inr n \<and> status n = Pending \<and>
           retryCount n = 0 \<and> createdAt n = updatedAt n \<and> createdAt n = now \<and>
           userEmail n = lc (trim (p_userEmail p))"
proof -
  from assms have "validateCreateEmailNotification p = Inr ()"
    by (simp add: validate_invariants)
  then show ?thesis by (simp add: create_valid)
qed

text \<open>
  The theorem at \<open>sampleParams\<close>, with the lower-casing of ASCII letters: the email
  \<open>"  Ann@Example.COM "\<close> is stored as \<open>"ann@example.com"\<close>.
\<close>

theorem create_pending_witness:
  "satisfies_invariants sampleParams \<and>
   (\<exists>n. createEmailNotification asciiLower 1793700000000 sampleParams = Inr n \<and>
        status n = Pending \<and> retryCount n = 0 \<and> createdAt n = updatedAt n \<and>
        userEmail n = js ''ann@example.com'')"
proof -
  have l: "asciiLower (trim (p_userEmail sampleParams)) = js ''ann@example.com''"
    unfolding sampleParams_trim by (simp add: asciiLower_def js_def)
  show ?thesis
    using create_pending [OF sampleParams_valid, of asciiLower 1793700000000] sampleParams_valid l
    by auto
qed

text \<open>
  Claim C5. \<open>createEmailNotification\<close> fails with an error that names the first
  invalid field, the checks being made in the order id, userId, userEmail (non-empty),
  userEmail (format), subject, htmlBody, reservationId, type; and it succeeds if and only
  if every check passes. The order of the specification is \<open>create_checks\<close>; the type
  check comes last and passes for every value of the enum.
\<close>

theorem create_first_invalid:
  "(case first_invalid_field p of
      Some name \<Rightarrow> (\<exists>e. createEmailNotification lc now p = Inl e \<and> field e = js name)
    | None \<Rightarrow> (\<exists>n. createEmailNotification lc now p = Inr n)) \<and>
   ((\<exists>n. createEmailNotification lc now p = Inr n) \<longleftrightarrow>
      list_all (\<lambda>(name, passes). passes p) create_checks)"
  unfolding create_Inr_iff create_Inl_iff validate_cases
  using type_recognised [of "p_type p"]
  by (simp add: first_invalid_field_def create_checks_def)

text \<open>
  The theorem at \<open>sampleParams\<close> with the email \<open>"not-an-email"\<close>, where the first
  failing check is the format of \<open>userEmail\<close>, and at \<open>sampleParams\<close> itself, where every
  check passes.
\<close>

theorem create_first_invalid_witness:
  "first_invalid_field (sampleParams \<lparr> p_userEmail := js ''not-an-email'' \<rparr>) = Some ''userEmail'' \<and>
   (\<exists>e. createEmailNotification asciiLower 0 (sampleParams \<lparr> p_userEmail := js ''not-an-email'' \<rparr>) = Inl e \<and>
        field e = js ''userEmail'') \<and>
   list_all (\<lambda>(name, passes). passes sampleParams) create_checks \<and>
   (\<exists>n. createEmailNotification asciiLower 0 sampleParams = Inr n)"
proof -
  have t: "trim (js ''not-an-email'') = js ''not-an-email''"
    by (simp add: trim_def js_def isWhiteSpace_def)
  have r: "\<not> emailRegex_test (js ''not-an-email'')"
    by (simp add: emailRegex_test_def js_def emailChar_def isWhiteSpace_def)
  have n: "js ''not-an-email'' \<noteq> []" "js ''n-1'' \<noteq> []" "js ''U1'' \<noteq> []"
    by (simp_all add: js_def)
  have f: "first_invalid_field (sampleParams \<lparr> p_userEmail := js ''not-an-email'' \<rparr>) = Some ''userEmail''"
    using sampleParams_trim(1,2) t r n
    by (simp add: first_invalid_field_def create_checks_def)
  have a: "list_all (\<lambda>(name, passes). passes sampleParams) create_checks"
    using sampleParams_valid type_recognised
    by (simp add: create_checks_def satisfies_invariants_def)
  show ?thesis
    using create_first_invalid [where p = "sampleParams \<lparr> p_userEmail := js ''not-an-email'' \<rparr>"
          and lc = asciiLower and now = 0]
      create_first_invalid [where p = sampleParams and lc = asciiLower and now = 0] f a
    by simp
qed

text \<open>
  Claim C7, as amended. Starting from a freshly created notification,
  \<open>markNotificationFailed\<close> applied in a chain once for each element of a list \<open>fs\<close> of
  length at most \<open>2 ^ 53\<close> gives a retry count equal to the length of \<open>fs\<close> (a longer
  chain stays at \<open>2 ^ 53\<close>); one application adds exactly 1 to the retry count of any
  notification whose retry count is below \<open>2 ^ 53\<close>; and the retry count is 0 after
  creation and stays 0 when the notification is marked as sent.
\<close>

theorem markFailed_retryCount:
  assumes "createEmailNotification lc now p = Inr n"
  shows "(length fs \<le> 2 ^ 53 \<longrightarrow> retryCount (markFailedChain fs n) = length fs) \<and>
         retryCount (markFailedChain fs n) = min (length fs) (2 ^ 53) \<and>
         (retryCount m < 2 ^ 53 \<longrightarrow>
            retryCount (markNotificationFailed t m reason) = retryCount m + 1) \<and>
         retryCount n = 0 \<and>
         retryCount (markNotificationSent t n) = 0"
proof -
  from assms have z: "retryCount n = 0"
    by (auto simp: createEmailNotification_def split: sum.splits)
  then have "retryCount (markFailedChain fs n) = min (length fs) (2 ^ 53)"
    using retryCount_chain [of n fs] by simp
  moreover have "retryCount (markNotificationFailed t m reason) = retryCount m + 1"
    if "retryCount m < 2 ^ 53"
    using that by (simp add: retryCount_markFailed addOne_exact)
  moreover from z have "retryCount (markNotificationSent t n) = 0"
    by (simp add: markNotificationSent_def)
  ultimately show ?thesis using z by simp
qed

text \<open>
  The theorem at \<open>sampleParams\<close>: one failure gives the retry count 1, a chain of three
  gives 3.
\<close>

theorem markFailed_retryCount_witness:
  "\<exists>n. createEmailNotification asciiLower 1793700000000 sampleParams = Inr n \<and>
       retryCount n = 0 \<and>
       retryCount (markNotificationFailed 1793700000250 n (js ''SMTP down'')) = 1 \<and>
       retryCount (markFailedChain
                     [(1793700000250, js ''SMTP down''), (1793700000900, js ''Mailbox full''),
                      (1793700001700, js ''SMTP down'')] n) = 3"
proof -
  obtain n where n: "createEmailNotification asciiLower 1793700000000 sampleParams = Inr n"
    using sampleParams_created by blast
  have "retryCount (markFailedChain
                     [(1793700000250, js ''SMTP down''), (1793700000900, js ''Mailbox full''),
                      (1793700001700, js ''SMTP down'')] n) = 3"
    using markFailed_retryCount [OF n, of "[(1793700000250, js ''SMTP down''),
      (1793700000900, js ''Mailbox full''), (1793700001700, js ''SMTP down'')]"] by simp
  moreover have "retryCount n = 0 \<and>
      retryCount (markNotificationFailed 1793700000250 n (js ''SMTP down'')) = 1"
    using markFailed_retryCount [OF n, of "[]" n 1793700000250 "js ''SMTP down''"] by simp
  ultimately show ?thesis using n by blast
qed

text \<open>
  Claim C7 as stated does not hold. A notification whose retry count is \<open>2 ^ 53\<close>
  (9007199254740992) keeps that retry count when it is marked as failed, since the double
  nearest to \<open>2 ^ 53 + 1\<close> is \<open>2 ^ 53\<close>; and a chain of \<open>2 ^ 53 + 1\<close> failures from a
  freshly created notification ends with the retry count \<open>2 ^ 53\<close>.
\<close>

theorem markFailed_retryCount_counterexample:
  "retryCount (sampleStored \<lparr> retryCount := 9007199254740992 \<rparr>) = 9007199254740992 \<and>
   retryCount (markNotificationFailed 1793700000250
                 (sampleStored \<lparr> retryCount := 9007199254740992 \<rparr>) (js ''SMTP down'')) =
     9007199254740992 \<and>
   createEmailNotification asciiLower 1793700000000 sampleParams = Inr sampleStored \<and>
   length (replicate 9007199254740993 (1793700000250 :: int, js ''SMTP down'')) =
     9007199254740993 \<and>
   retryCount (markFailedChain (replicate 9007199254740993 (1793700000250, js ''SMTP down''))
                 sampleStored) = 9007199254740992"
proof -
  have c: "createEmailNotification asciiLower 1793700000000 sampleParams = Inr sampleStored"
    using sampleParams_valid
    by (simp add: create_valid validate_invariants sampleStored_def)
  have z: "retryCount sampleStored \<le> 2 ^ 53" by (simp add: sampleStored_def)
  have "retryCount (markFailedChain (replicate 9007199254740993 (1793700000250, js ''SMTP down''))
                 sampleStored) = 9007199254740992"
    using retryCount_chain [OF z, of "replicate 9007199254740993 (1793700000250, js ''SMTP down'')"]
    by (simp add: sampleStored_def)
  moreover have "retryCount (markNotificationFailed 1793700000250
                 (sampleStored \<lparr> retryCount := 9007199254740992 \<rparr>) (js ''SMTP down'')) =
     9007199254740992"
    by (simp add: retryCount_markFailed addOne_def)
  ultimately show ?thesis using c by simp
qed

text \<open>
  Claim C10. Frame property: \<open>markNotificationSent\<close> changes only \<open>status\<close>,
  \<open>sentAt\<close> and \<open>updatedAt\<close>, so every other field, in particular \<open>retryCount\<close> and
  \<open>failureReason\<close>, keeps its value; \<open>markNotificationFailed\<close> changes only \<open>status\<close>,
  \<open>failureReason\<close>, \<open>retryCount\<close> and \<open>updatedAt\<close>, so every other field, in particular
  \<open>sentAt\<close> and \<open>createdAt\<close>, keeps its value.
\<close>

theorem mark_frame:
  "id' (markNotificationSent now n) = id' n \<and>
   userId (markNotificationSent now n) = userId n \<and>
   userEmail (markNotificationSent now n) = userEmail n \<and>
   type (markNotificationSent now n) = type n \<and>
   subject (markNotificationSent now n) = subject n \<and>
   htmlBody (markNotificationSent now n) = htmlBody n \<and>
   textBody (markNotificationSent now n) = textBody n \<and>
   reservationId (markNotificationSent now n) = reservationId n \<and>
   createdAt (markNotificationSent now n) = createdAt n \<and>
   failureReason (markNotificationSent now n) = failureReason n \<and>
   retryCount (markNotificationSent now n) = retryCount n \<and>
   id' (markNotificationFailed now n reason) = id' n \<and>
   userId (markNotificationFailed now n reason) = userId n \<and>
   userEmail (markNotificationFailed now n reason) = userEmail n \<and>
   type (markNotificationFailed now n reason) = type n \<and>
   subject (markNotificationFailed now n reason) = subject n \<and>
   htmlBody (markNotificationFailed now n reason) = htmlBody n \<and>
   textBody (markNotificationFailed now n reason) = textBody n \<and>
   reservationId (markNotificationFailed now n reason) = reservationId n \<and>
   createdAt (markNotificationFailed now n reason) = createdAt n \<and>
   sentAt (markNotificationFailed now n reason) = sentAt n"
  by (simp add: markNotificationSent_def markNotificationFailed_def)

section \<open>The templates\<close>

text \<open>
  Claim C8. For every template data and each of the six notification types,
  \<open>getEmailTemplate\<close> returns the fixed subject with the application name in front; the
  subject does not depend on the data (nor on the year). The warning sign of the last
  subject is the two code units U+26A0 U+FE0F.
\<close>

theorem getEmailTemplate_subject:
  "t_subject (getEmailTemplate fullYear ReservationCreated data) =
     js ''Device Loan System - Your reservation is confirmed'' \<and>
   t_subject (getEmailTemplate fullYear ReservationCollected data) =
     js ''Device Loan System - Device collected successfully'' \<and>
   t_subject (getEmailTemplate fullYear ReservationReturned data) =
     js ''Device Loan System - Device returned - Thank you!'' \<and>
   t_subject (getEmailTemplate fullYear ReservationCancelled data) =
     js ''Device Loan System - Reservation cancelled'' \<and>
   t_subject (getEmailTemplate fullYear ReservationExpired data) =
     js ''Device Loan System - Reservation expired'' \<and>
   t_subject (getEmailTemplate fullYear ReservationOverdue data) =
     js ''Device Loan System - '' @ [0x26A0, 0xFE0F] @ js '' URGENT: Device return overdue'' \<and>
   t_subject (getEmailTemplate fullYear ty data) = t_subject (getEmailTemplate fullYear' ty data')"
proof -
  have "t_subject (getEmailTemplate fullYear ty data) =
        t_subject (getEmailTemplate fullYear' ty data')"
    by (cases ty)
       (simp_all add: getReservationCreatedEmail_def getReservationCollectedEmail_def
          getReservationReturnedEmail_def getReservationCancelledEmail_def
          getReservationExpiredEmail_def getReservationOverdueEmail_def)
  then show ?thesis
    by (simp add: getReservationCreatedEmail_def getReservationCollectedEmail_def
        getReservationReturnedEmail_def getReservationCancelledEmail_def
        getReservationExpiredEmail_def getReservationOverdueEmail_def APP_NAME_def js_def)
qed

section \<open>The use case\<close>








text \<open>
  Claim C3, as amended. In every invocation that no exception interrupts, the calls to
  the collaborators are exactly: one save of a Pending record, then one attempt to send
  the email, then one save of a terminal (Sent or Failed) record. In every invocation,
  interrupted or not, the email sender is called at most once.
\<close>

theorem sendReservationEmail_call_order:
  "(fst (sendReservationEmail_try deps rt ty ev (start w)) = Inr result \<longrightarrow>
      write_send_write (calls (snd (sendReservationEmail deps rt ty ev (start w)))) \<and>
      sendAttempts (calls (snd (sendReservationEmail deps rt ty ev (start w)))) = 1) \<and>
   sendAttempts (calls (snd (sendReservationEmail deps rt ty ev (start w)))) \<le> 1"
proof -
  have "sendAttempts (calls (snd (sendReservationEmail deps rt ty ev (start w)))) \<le> 1"
    unfolding calls_sendReservationEmail try_calls
    by (simp split: sum.splits)
  moreover have "write_send_write (calls (snd (sendReservationEmail deps rt ty ev (start w)))) \<and>
      sendAttempts (calls (snd (sendReservationEmail deps rt ty ev (start w)))) = 1"
    if r: "fst (sendReservationEmail_try deps rt ty ev (start w)) = Inr result"
  proof -
    obtain created pending r where c: "createdFor rt ty ev = Inr created"
      and p: "fst (await_save deps created (start w)) = Inr pending"
      and s: "fst (await_sendEmail deps (contentFor rt ty ev)
                     (snd (await_save deps created (start w)))) = Inr r"
      using try_resolved [OF r] by blast
    have "status created = Pending" using created_fresh [OF c] by simp
    then show ?thesis
      using p s
      by (simp add: calls_sendReservationEmail try_calls c terminal_def
          markNotificationSent_def markNotificationFailed_def)
  qed
  ultimately show ?thesis by blast
qed

text \<open>
  The theorem for a run with the in-memory repository and a sender that delivers.
\<close>

theorem sendReservationEmail_call_order_witness:
  "fst (sendReservationEmail_try (depsWith delivered memoryRepo) sampleRuntime ReservationCreated
          (sampleEvent (js ''U1'') (js ''a@b.com'')) (start [])) =
     Inr (fst (sendReservationEmail (depsWith delivered memoryRepo) sampleRuntime ReservationCreated
          (sampleEvent (js ''U1'') (js ''a@b.com'')) (start []))) \<and>
   res_success (fst (sendReservationEmail (depsWith delivered memoryRepo) sampleRuntime ReservationCreated
          (sampleEvent (js ''U1'') (js ''a@b.com'')) (start []))) \<and>
   write_send_write (calls (snd (sendReservationEmail (depsWith delivered memoryRepo) sampleRuntime
          ReservationCreated (sampleEvent (js ''U1'') (js ''a@b.com'')) (start [])))) \<and>
   sendAttempts (calls (snd (sendReservationEmail (depsWith delivered memoryRepo) sampleRuntime
          ReservationCreated (sampleEvent (js ''U1'') (js ''a@b.com'')) (start [])))) = 1"
proof -
  obtain n where r: "fst (sendReservationEmail (depsWith delivered memoryRepo) sampleRuntime ReservationCreated
              (sampleEvent (js ''U1'') (js ''a@b.com'')) (start [])) =
         \<lparr> res_success = True,
           res_notification = Some (markNotificationSent (rt_markNow sampleRuntime) n),
           res_error = None \<rparr>"
    using sample_delivered_run by blast
  have t: "fst (sendReservationEmail_try (depsWith delivered memoryRepo) sampleRuntime ReservationCreated
          (sampleEvent (js ''U1'') (js ''a@b.com'')) (start [])) =
     Inr (fst (sendReservationEmail (depsWith delivered memoryRepo) sampleRuntime ReservationCreated
          (sampleEvent (js ''U1'') (js ''a@b.com'')) (start [])))"
    using r
    by (cases "sendReservationEmail_try (depsWith delivered memoryRepo) sampleRuntime
          ReservationCreated (sampleEvent (js ''U1'') (js ''a@b.com'')) (start [])")
       (auto simp: sendReservationEmail_def split: sum.splits)
  show ?thesis
    using sendReservationEmail_call_order
      [of "depsWith delivered memoryRepo" sampleRuntime ReservationCreated
          "sampleEvent (js ''U1'') (js ''a@b.com'')" "[]"
          "fst (sendReservationEmail (depsWith delivered memoryRepo) sampleRuntime ReservationCreated
             (sampleEvent (js ''U1'') (js ''a@b.com'')) (start []))"] t r
    by simp
qed

text \<open>
  Claim C3 as stated does not hold: in that run nothing throws, and the calls are not a
  Pending write followed by a terminal write followed by at most one email; the email is
  sent second, before the terminal write.
\<close>

theorem sendReservationEmail_call_order_counterexample:
  "res_success (fst (sendReservationEmail (depsWith delivered memoryRepo) sampleRuntime ReservationCreated
          (sampleEvent (js ''U1'') (js ''a@b.com'')) (start []))) \<and>
   \<not> writes_then_send (calls (snd (sendReservationEmail (depsWith delivered memoryRepo) sampleRuntime
          ReservationCreated (sampleEvent (js ''U1'') (js ''a@b.com'')) (start [])))) \<and>
   take 2 (calls (snd (sendReservationEmail (depsWith delivered memoryRepo) sampleRuntime
          ReservationCreated (sampleEvent (js ''U1'') (js ''a@b.com'')) (start [])))) =
     [Save (projr (createdFor sampleRuntime ReservationCreated (sampleEvent (js ''U1'') (js ''a@b.com'')))),
      SendEmail (contentFor sampleRuntime ReservationCreated (sampleEvent (js ''U1'') (js ''a@b.com'')))]"
  using sample_delivered_run by auto

text \<open>
  Claim C6, as amended. For every event data whose \<open>userEmail\<close> is \<open>"not-an-email"\<close>,
  \<open>createEmailNotification\<close> fails, the use case returns \<open>success: false\<close> with the
  message of that error, calls neither collaborator and leaves the outside world as it
  was. When moreover \<open>randomUUID()\<close> gives a UUID and \<open>userId\<close> is non-empty after
  trimming, the error is the one on the field \<open>userEmail\<close> for an invalid address.
\<close>

theorem sendReservationEmail_invalid_email:
  assumes "e_userEmail ev = js ''not-an-email''"
  shows "isl (createdFor rt ty ev) \<and>
         fst (sendReservationEmail deps rt ty ev st) =
           \<lparr> res_success = False, res_notification = None,
             res_error = Some (message (projl (createdFor rt ty ev))) \<rparr> \<and>
         calls (snd (sendReservationEmail deps rt ty ev st)) = calls st \<and>
         world (snd (sendReservationEmail deps rt ty ev st)) = world st \<and>
         (isUUID (rt_randomUUID rt) \<and> trim (e_userId ev) \<noteq> [] \<longrightarrow>
            projl (createdFor rt ty ev) =
              NotificationError (js ''userEmail'')
                (js ''Notification userEmail must be a valid email address.''))"
proof -
  have "\<exists>e. createdFor rt ty ev = Inl e"
    using not_an_email by (simp add: createdFor_cases assms)
  then obtain e where e: "createdFor rt ty ev = Inl e" ..
  have "projl (createdFor rt ty ev) =
          NotificationError (js ''userEmail'')
            (js ''Notification userEmail must be a valid email address.'')"
    if "isUUID (rt_randomUUID rt)" "trim (e_userId ev) \<noteq> []"
    using isUUID_nonblank [OF that(1)] that(2) not_an_email
    by (simp add: createdFor_cases assms)
  then show ?thesis
    using e by (simp add: run_create_throws console_error_def)
qed

text \<open>
  The theorem for the user id \<open>"U1"\<close>.
\<close>

theorem sendReservationEmail_invalid_email_witness:
  "e_userEmail (sampleEvent (js ''U1'') (js ''not-an-email'')) = js ''not-an-email'' \<and>
   field (projl (createdFor sampleRuntime ReservationCreated
                   (sampleEvent (js ''U1'') (js ''not-an-email'')))) = js ''userEmail'' \<and>
   fst (sendReservationEmail (depsWith delivered memoryRepo) sampleRuntime ReservationCreated
          (sampleEvent (js ''U1'') (js ''not-an-email'')) (start [])) =
     \<lparr> res_success = False, res_notification = None,
       res_error = Some (js ''Notification userEmail must be a valid email address.'') \<rparr> \<and>
   calls (snd (sendReservationEmail (depsWith delivered memoryRepo) sampleRuntime ReservationCreated
          (sampleEvent (js ''U1'') (js ''not-an-email'')) (start []))) = [] \<and>
   world (snd (sendReservationEmail (depsWith delivered memoryRepo) sampleRuntime ReservationCreated
          (sampleEvent (js ''U1'') (js ''not-an-email'')) (start []))) = []"
proof -
  have e: "e_userEmail (sampleEvent (js ''U1'') (js ''not-an-email'')) = js ''not-an-email''"
    "trim (e_userId (sampleEvent (js ''U1'') (js ''not-an-email''))) \<noteq> []"
    using sample_nonblank by (simp_all add: sampleEvent_def)
  show ?thesis
    using sendReservationEmail_invalid_email [OF e(1), of sampleRuntime ReservationCreated
        "depsWith delivered memoryRepo" "start []"] e sampleRuntime_uuid
    by (simp add: start_def)
qed

text \<open>
  Claim C6 as stated does not hold: with the same email and an empty \<open>userId\<close>, the
  error is on the field \<open>userId\<close>, which is checked before \<open>userEmail\<close>.
\<close>

theorem sendReservationEmail_invalid_email_counterexample:
  "e_userEmail (sampleEvent [] (js ''not-an-email'')) = js ''not-an-email'' \<and>
   createdFor sampleRuntime ReservationCreated (sampleEvent [] (js ''not-an-email'')) =
     Inl (NotificationError (js ''userId'') (js ''Notification userId must be a non-empty string.'')) \<and>
   js ''userId'' \<noteq> js ''userEmail''"
proof -
  have "js ''userId'' \<noteq> js ''userEmail''" by (simp add: js_def)
  then show ?thesis
    using isUUID_nonblank [OF sampleRuntime_uuid]
    by (simp add: createdFor_cases sampleEvent_def trim_Nil)
qed

end
